theory Spec2Isabelle
  imports Main "HOL-Library.Code_Target_Numeral"
begin

section \<open>Python values\<close>

text \<open>
  A Python \<open>str\<close> is a sequence of Unicode code points; it is modelled as the list of
  their numbers. \<open>cps\<close> turns an ASCII literal of the source into that list.
\<close>

type_synonym pystr = "nat list"

definition cps :: "string \<Rightarrow> pystr" where
  "cps s = map of_char s"

text \<open>
  The values the filter receives are parsed JSON (request body, backend reply) and, for the
  user's valves, an object with attributes. A float is carried as the text \<open>repr\<close> prints
  for it; this text decides both its formatting and its truth value (\<open>0.0\<close>, \<open>-0.0\<close>).
  \<open>PObj mt en\<close> is an object that is no container: it has the attribute \<open>max_turns\<close>
  exactly when \<open>mt\<close> is \<open>Some\<close>, and \<open>enable_maps_for_user\<close> exactly when \<open>en\<close> is.
\<close>

datatype pyval =
    PNone
  | PBool bool
  | PInt int
  | PFloat pystr
  | PStr pystr
  | PList "pyval list"
  | PDict "(pystr \<times> pyval) list"
  | PObj "int option" "bool option"

type_synonym pydict = "(pystr \<times> pyval) list"

text \<open>The exceptions that can leave a function; \<open>Exception\<close> carries its message.\<close>

datatype pyexc =
    Exception pystr
  | TypeError
  | KeyError
  | IndexError
  | AttributeError
  | OverflowError
  | MemoryError
  | RequestException
  | JSONDecodeError

text \<open>
  What the Python runtime contributes and the repository does not contain: the lower-casing
  of a code point beyond ASCII (it may depend on the text before and after it, and may yield
  several code points), the text \<open>str()\<close> gives for a list, a dict or an object, the
  largest index \<open>sys.maxsize\<close>, and the length of the longest string it has the memory
  to build.
\<close>

record runtime =
  lower_nonascii :: "pystr \<Rightarrow> nat \<Rightarrow> pystr \<Rightarrow> pystr"
  repr_compound :: "pyval \<Rightarrow> pystr"
  maxsize :: nat
  max_str_len :: nat

subsection \<open>Truth value, \<open>str()\<close>, dictionaries\<close>

fun truthy :: "pyval \<Rightarrow> bool" where
  "truthy PNone = False"
| "truthy (PBool b) = b"
| "truthy (PInt i) = (i \<noteq> 0)"
| "truthy (PFloat r) = (r \<noteq> cps ''0.0'' \<and> r \<noteq> cps ''-0.0'')"
| "truthy (PStr s) = (s \<noteq> [])"
| "truthy (PList xs) = (xs \<noteq> [])"
| "truthy (PDict d) = (d \<noteq> [])"
| "truthy (PObj mt en) = True"

fun digits :: "nat \<Rightarrow> pystr" where
  "digits n = (if n < 10 then [48 + n] else digits (n div 10) @ [48 + n mod 10])"

declare digits.simps [simp del]

definition show_int :: "int \<Rightarrow> pystr" where
  "show_int i = (if i < 0 then 45 # digits (nat (- i)) else digits (nat i))"

fun py_str :: "runtime \<Rightarrow> pyval \<Rightarrow> pystr" where
  "py_str rt PNone = cps ''None''"
| "py_str rt (PBool b) = (if b then cps ''True'' else cps ''False'')"
| "py_str rt (PInt i) = show_int i"
| "py_str rt (PFloat r) = r"
| "py_str rt (PStr s) = s"
| "py_str rt v = repr_compound rt v"

text \<open>\<open>d.get(k)\<close> is \<open>dict_get d k\<close>, with \<open>None\<close> for a missing key.\<close>

definition dict_get :: "pydict \<Rightarrow> pystr \<Rightarrow> pyval option" where
  "dict_get d k = map_of d k"

text \<open>\<open>d[k] = v\<close>: an existing key keeps its place, a new one goes last.\<close>

fun dict_set :: "pystr \<Rightarrow> pyval \<Rightarrow> pydict \<Rightarrow> pydict" where
  "dict_set k v [] = [(k, v)]"
| "dict_set k v ((k', v') # d) =
     (if k' = k then (k, v) # d else (k', v') # dict_set k v d)"

text \<open>\<open>x.get(k, default)\<close> on any value: only a dict has \<open>get\<close>.\<close>

fun py_get :: "pyval \<Rightarrow> pystr \<Rightarrow> pyval \<Rightarrow> pyexc + pyval" where
  "py_get (PDict d) k dflt = Inr (case dict_get d k of None \<Rightarrow> dflt | Some v \<Rightarrow> v)"
| "py_get v k dflt = Inl AttributeError"

text \<open>\<open>x[k]\<close> with a string key: a dict looks it up, nothing else accepts it.\<close>

fun py_getitem :: "pyval \<Rightarrow> pystr \<Rightarrow> pyexc + pyval" where
  "py_getitem (PDict d) k = (case dict_get d k of None \<Rightarrow> Inl KeyError | Some v \<Rightarrow> Inr v)"
| "py_getitem v k = Inl TypeError"

text \<open>\<open>x[0]\<close>: the first element of a list, the first character of a string.\<close>

fun py_first :: "pyval \<Rightarrow> pyexc + pyval" where
  "py_first (PList []) = Inl IndexError"
| "py_first (PList (x # xs)) = Inr x"
| "py_first (PStr []) = Inl IndexError"
| "py_first (PStr (c # cs)) = Inr (PStr [c])"
| "py_first (PDict d) = Inl KeyError"
| "py_first v = Inl TypeError"

section \<open>Response enhancer\<close>

text \<open>
  The four patterns of \<open>enhance_maps_response\<close> are a group of literal alternatives,
  followed by a literal (empty, or the colon). \<open>re.sub\<close> scans from the left; at each
  position the alternatives are tried in their order and the first one that fits, with the
  literal after it, is the match; the scan goes on behind the match. Every alternative
  here is non-empty.
\<close>

definition starts_with :: "pystr \<Rightarrow> pystr \<Rightarrow> bool" where
  "starts_with s p = (take (length p) s = p)"

fun match_first :: "pystr list \<Rightarrow> pystr \<Rightarrow> pystr \<Rightarrow> pystr option" where
  "match_first [] suffix s = None"
| "match_first (a # alts) suffix s =
     (if starts_with s (a @ suffix) then Some a else match_first alts suffix s)"

fun re_sub :: "pystr list \<Rightarrow> pystr \<Rightarrow> (pystr \<Rightarrow> pystr) \<Rightarrow> pystr \<Rightarrow> pystr" where
  "re_sub alts suffix repl [] = []"
| "re_sub alts suffix repl (c # cs) =
     (case match_first alts suffix (c # cs) of
        None \<Rightarrow> c # re_sub alts suffix repl cs
      | Some g \<Rightarrow> repl g @ re_sub alts suffix repl (drop (length (g @ suffix) - 1) cs))"

definition map_emoji :: pystr where "map_emoji = [0x1F5FA, 0xFE0F]"
definition pin_emoji :: pystr where "pin_emoji = [0x1F4CD]"
definition star_emoji :: pystr where "star_emoji = [0x2B50]"
definition compass_emoji :: pystr where "compass_emoji = [0x1F9ED]"

definition enhance_maps_response :: "pystr \<Rightarrow> pystr" where
  "enhance_maps_response content =
     (let enhanced = content;
          enhanced = re_sub [cps ''Google Maps'', cps ''Maps'', cps ''Lokasi'', cps ''Location''] []
                       (\<lambda>g. map_emoji @ cps '' '' @ g) enhanced;
          enhanced = re_sub [cps ''Address'', cps ''Alamat''] (cps '':'')
                       (\<lambda>g. pin_emoji @ cps '' '' @ g @ cps '':'') enhanced;
          enhanced = re_sub [cps ''Rating'', star_emoji] []
                       (\<lambda>g. star_emoji @ cps '' Rating'') enhanced;
          enhanced = re_sub [cps ''Direction'', cps ''Petunjuk'', cps ''Arah''] []
                       (\<lambda>g. compass_emoji @ cps '' '' @ g) enhanced
      in enhanced)"

section \<open>Post-call hook\<close>

text \<open>
  \<open>outlet\<close> reads the reply's text from \<open>choices[0].message.content\<close> when the body
  has a non-empty \<open>choices\<close>, else from \<open>message.content\<close> when it has
  \<open>message\<close>; a non-empty text is enhanced and stored where it was read. The body
  is returned; a value of the wrong kind on the way raises.
\<close>

definition uses_choices :: "pydict \<Rightarrow> bool" where
  "uses_choices body =
     (case dict_get body (cps ''choices'') of None \<Rightarrow> False | Some ch \<Rightarrow> truthy ch)"

definition response_content :: "pydict \<Rightarrow> pyexc + pyval" where
  "response_content body =
     (if uses_choices body then
        (case py_getitem (PDict body) (cps ''choices'') of
           Inl e \<Rightarrow> Inl e
         | Inr ch \<Rightarrow>
             (case py_first ch of
                Inl e \<Rightarrow> Inl e
              | Inr c0 \<Rightarrow>
                  (case py_get c0 (cps ''message'') (PDict []) of
                     Inl e \<Rightarrow> Inl e
                   | Inr m \<Rightarrow> py_get m (cps ''content'') (PStr []))))
      else if dict_get body (cps ''message'') \<noteq> None then
        (case py_getitem (PDict body) (cps ''message'') of
           Inl e \<Rightarrow> Inl e
         | Inr m \<Rightarrow> py_get m (cps ''content'') (PStr []))
      else Inr (PStr []))"

text \<open>\<open>x[k] = v\<close> on any value with a string key.\<close>

fun py_setitem :: "pyval \<Rightarrow> pystr \<Rightarrow> pyval \<Rightarrow> pyexc + pyval" where
  "py_setitem (PDict d) k v = Inr (PDict (dict_set k v d))"
| "py_setitem x k v = Inl TypeError"

text \<open>
  \<open>body["choices"][0]["message"]["content"] = text\<close>. The objects are mutated in
  place; by value, each container on the path is rebuilt around the changed one.
\<close>

definition store_choice_content :: "pydict \<Rightarrow> pystr \<Rightarrow> pyexc + pydict" where
  "store_choice_content body text =
     (case py_getitem (PDict body) (cps ''choices'') of
        Inl e \<Rightarrow> Inl e
      | Inr ch \<Rightarrow>
          (case py_first ch of
             Inl e \<Rightarrow> Inl e
           | Inr c0 \<Rightarrow>
               (case py_getitem c0 (cps ''message'') of
                  Inl e \<Rightarrow> Inl e
                | Inr m \<Rightarrow>
                    (case py_setitem m (cps ''content'') (PStr text) of
                       Inl e \<Rightarrow> Inl e
                     | Inr m' \<Rightarrow>
                         (case (ch, c0) of
                            (PList (x # rest), PDict c) \<Rightarrow>
                              Inr (dict_set (cps ''choices'')
                                     (PList (PDict (dict_set (cps ''message'') m' c) # rest)) body)
                          | _ \<Rightarrow> Inl TypeError)))))"

definition store_message_content :: "pydict \<Rightarrow> pystr \<Rightarrow> pyexc + pydict" where
  "store_message_content body text =
     (case py_getitem (PDict body) (cps ''message'') of
        Inl e \<Rightarrow> Inl e
      | Inr m \<Rightarrow>
          (case py_setitem m (cps ''content'') (PStr text) of
             Inl e \<Rightarrow> Inl e
           | Inr m' \<Rightarrow> Inr (dict_set (cps ''message'') m' body)))"

definition outlet :: "pydict \<Rightarrow> pyexc + pydict" where
  "outlet body =
     (case response_content body of
        Inl e \<Rightarrow> Inl e
      | Inr content \<Rightarrow>
          if truthy content then
            (case content of
               PStr text \<Rightarrow>
                 (let enhanced_content = enhance_maps_response text
                  in if uses_choices body then store_choice_content body enhanced_content
                     else if dict_get body (cps ''message'') \<noteq> None
                       then store_message_content body enhanced_content
                     else Inr body)
             | _ \<Rightarrow> Inl TypeError)
          else Inr body)"

section \<open>Query classifier\<close>

text \<open>
  \<open>str.lower()\<close>: the letters \<open>A\<close> to \<open>Z\<close> go to \<open>a\<close> to \<open>z\<close>, every other ASCII
  code point stays, and a code point from 128 on is lower-cased by the runtime.
\<close>

definition ascii_lower :: "nat \<Rightarrow> nat" where
  "ascii_lower c = (if 65 \<le> c \<and> c \<le> 90 then c + 32 else c)"

fun lower_chars :: "runtime \<Rightarrow> pystr \<Rightarrow> pystr \<Rightarrow> pystr" where
  "lower_chars rt seen [] = []"
| "lower_chars rt seen (c # rest) =
     (if c < 128 then [ascii_lower c] else lower_nonascii rt seen c rest)
       @ lower_chars rt (seen @ [c]) rest"

definition py_lower :: "runtime \<Rightarrow> pystr \<Rightarrow> pystr" where
  "py_lower rt s = lower_chars rt [] s"

text \<open>\<open>k in s\<close> for two strings: \<open>k\<close> occurs in \<open>s\<close> as a contiguous piece.\<close>

fun str_contains :: "pystr \<Rightarrow> pystr \<Rightarrow> bool" where
  "str_contains k [] = (k = [])"
| "str_contains k (c # cs) = (starts_with (c # cs) k \<or> str_contains k cs)"

definition location_keywords :: "pystr list" where
  "location_keywords = map cps
     [''find'', ''search'', ''locate'', ''where'', ''near'', ''nearby'', ''around'', ''closest'',
      ''nearest'', ''restaurant'', ''coffee'', ''shop'', ''store'', ''hotel'', ''gas station'',
      ''bank'', ''hospital'', ''pharmacy'', ''mall'', ''market'',
      ''cari'', ''temukan'', ''dimana'', ''dekat'', ''terdekat'', ''sekitar'', ''lokasi'',
      ''tempat'', ''restoran'', ''rumah makan'', ''warung'', ''kafe'', ''toko'', ''hotel'',
      ''spbu'', ''bank'', ''rumah sakit'', ''apotek'', ''mall'', ''pasar'']"

definition is_location_query :: "runtime \<Rightarrow> pystr \<Rightarrow> bool" where
  "is_location_query rt message =
     (let message_lower = py_lower rt message
      in list_ex (\<lambda>keyword. str_contains keyword message_lower) location_keywords)"

section \<open>Backend client\<close>

record Valves =
  priority :: int
  max_turns :: int
  maps_api_base_url :: pystr
  enable_maps_integration :: bool

text \<open>
  \<open>Valves()\<close> as \<open>__init__\<close> builds it; the base URL is the environment's
  \<open>MAPS_API_BASE_URL\<close> when that is set.
\<close>

definition init_valves :: "pystr option \<Rightarrow> Valves" where
  "init_valves env_base_url =
     \<lparr> priority = 0,
       max_turns = 8,
       maps_api_base_url =
         (case env_base_url of None \<Rightarrow> cps ''http://localhost:3000'' | Some u \<Rightarrow> u),
       enable_maps_integration = True \<rparr>"

text \<open>
  The one outbound call: \<open>requests.post(endpoint, json=payload, headers=..., timeout=30)\<close>.
  The backend is a function from the request to what comes back: no reply (the library
  raises a \<open>RequestException\<close>: connection refused, timeout), or a status code with
  the value \<open>response.json()\<close> gives, \<open>None\<close> when the text is not JSON.
\<close>

record http_request =
  url :: pystr
  json_payload :: pyval
  content_type :: pystr
  timeout_seconds :: nat

datatype http_reply = NoReply | Reply int "pyval option"

definition maps_request :: "Valves \<Rightarrow> pystr \<Rightarrow> http_request" where
  "maps_request valves query =
     \<lparr> url = maps_api_base_url valves @ cps ''/api/search'',
       json_payload = PDict [(cps ''query'', PStr query), (cps ''radius'', PInt 5000),
                             (cps ''type'', PStr (cps ''restaurant''))],
       content_type = cps ''application/json'',
       timeout_seconds = 30 \<rparr>"

definition money_emoji :: pystr where "money_emoji = [0x1F4B0]"
definition globe_emoji :: pystr where "globe_emoji = [0x1F310]"
definition phone_emoji :: pystr where "phone_emoji = [0x1F4DE]"
definition green_emoji :: pystr where "green_emoji = [0x1F7E2]"
definition red_emoji :: pystr where "red_emoji = [0x1F534]"
definition clock_emoji :: pystr where "clock_emoji = [0x1F552]"

text \<open>The line break and three blanks that start every further line of a block.\<close>

definition nl3 :: pystr where "nl3 = 10 # cps ''   ''"

text \<open>
  \<open>s * n\<close> for an integer \<open>n\<close>. A count that does not fit an index raises
  \<open>OverflowError\<close>; a count below one gives the empty string and the count one the
  string itself; a result longer than an index can address raises \<open>OverflowError\<close>,
  and one the runtime has no memory for raises \<open>MemoryError\<close>.
\<close>

definition repeat_str :: "runtime \<Rightarrow> pystr \<Rightarrow> int \<Rightarrow> pyexc + pystr" where
  "repeat_str rt s n =
     (if n < - int (maxsize rt) - 1 \<or> int (maxsize rt) < n then Inl OverflowError
      else if n < 1 then Inr []
      else if n = 1 then Inr s
      else if maxsize rt div nat n < length s then Inl OverflowError
      else if max_str_len rt < nat n * length s then Inl MemoryError
      else Inr (concat (replicate (nat n) s)))"

text \<open>The integer a value is where a count is asked for: an int, or a bool.\<close>

fun index_of :: "pyval \<Rightarrow> int option" where
  "index_of (PInt n) = Some n"
| "index_of (PBool b) = Some (if b then 1 else 0)"
| "index_of v = None"

text \<open>\<open>s * v\<close>: an integer repeats the string, anything else raises.\<close>

definition py_repeat :: "runtime \<Rightarrow> pystr \<Rightarrow> pyval \<Rightarrow> pyexc + pystr" where
  "py_repeat rt s v =
     (case index_of v of None \<Rightarrow> Inl TypeError | Some n \<Rightarrow> repeat_str rt s n)"

text \<open>\<open>place.get(k)\<close> when it is true, as the \<open>if place.get(k):\<close> of the loop asks.\<close>

definition get_truthy :: "pydict \<Rightarrow> pystr \<Rightarrow> pyval option" where
  "get_truthy d k =
     (case dict_get d k of None \<Rightarrow> None | Some v \<Rightarrow> if truthy v then Some v else None)"

definition price_part :: "runtime \<Rightarrow> pydict \<Rightarrow> pyexc + pystr" where
  "price_part rt d =
     (case get_truthy d (cps ''price_level'') of
        None \<Rightarrow> Inr []
      | Some lvl \<Rightarrow>
          (case py_repeat rt money_emoji lvl of
             Inl e \<Rightarrow> Inl e
           | Inr price_symbols \<Rightarrow>
               Inr (nl3 @ money_emoji @ cps '' Price Level: '' @ price_symbols)))"

definition status_part :: "pydict \<Rightarrow> pyexc + pystr" where
  "status_part d =
     (case get_truthy d (cps ''opening_hours'') of
        None \<Rightarrow> Inr []
      | Some hours \<Rightarrow>
          (case py_get hours (cps ''open_now'') PNone of
             Inl e \<Rightarrow> Inl e
           | Inr open_now \<Rightarrow>
               if open_now \<noteq> PNone then
                 Inr (nl3 @ clock_emoji @ cps '' Status: '' @
                      (if truthy open_now then green_emoji @ cps '' Open Now''
                       else red_emoji @ cps '' Closed''))
               else Inr []))"

text \<open>The body of the loop over the places: one place, one block of text.\<close>

definition format_place :: "runtime \<Rightarrow> pyval \<Rightarrow> pyexc + pystr" where
  "format_place rt place =
     (case py_getitem place (cps ''name'') of
        Inl e \<Rightarrow> Inl e
      | Inr name \<Rightarrow>
          (case place of
             PDict d \<Rightarrow>
               (let info = pin_emoji @ cps '' **'' @ py_str rt name @ cps ''**'';
                    info = (case get_truthy d (cps ''rating'') of
                              None \<Rightarrow> info
                            | Some r \<Rightarrow>
                                info @ cps '' ('' @ star_emoji @ cps '' '' @ py_str rt r @ cps ''/5)'')
                in case py_getitem place (cps ''formatted_address'') of
                     Inl e \<Rightarrow> Inl e
                   | Inr addr \<Rightarrow>
                       (let info = info @ nl3 @ pin_emoji @ cps '' '' @ py_str rt addr
                        in case price_part rt d of
                             Inl e \<Rightarrow> Inl e
                           | Inr price \<Rightarrow>
                               (let info = info @ price;
                                    info = (case get_truthy d (cps ''website'') of
                                              None \<Rightarrow> info
                                            | Some w \<Rightarrow>
                                                info @ nl3 @ globe_emoji @ cps '' Website: '' @ py_str rt w);
                                    info = (case get_truthy d (cps ''formatted_phone_number'') of
                                              None \<Rightarrow> info
                                            | Some ph \<Rightarrow>
                                                info @ nl3 @ phone_emoji @ cps '' Phone: '' @ py_str rt ph)
                                in case status_part d of
                                     Inl e \<Rightarrow> Inl e
                                   | Inr status \<Rightarrow> Inr (info @ status))))
           | _ \<Rightarrow> Inl TypeError))"

text \<open>
  What the loop body needs of a place in order not to raise: a dict with \<open>name\<close> and
  \<open>formatted_address\<close>; a \<open>price_level\<close> that, when true, is an integer (or a bool)
  which fits an index and asks for no more money signs than the runtime can hold in one
  string; an \<open>opening_hours\<close> that, when true, is a dict.
\<close>

definition well_formed_place :: "runtime \<Rightarrow> pyval \<Rightarrow> bool" where
  "well_formed_place rt place =
     (case place of
        PDict d \<Rightarrow>
          dict_get d (cps ''name'') \<noteq> None
          \<and> dict_get d (cps ''formatted_address'') \<noteq> None
          \<and> (case get_truthy d (cps ''price_level'') of
                None \<Rightarrow> True
              | Some lvl \<Rightarrow>
                  (case index_of lvl of
                     None \<Rightarrow> False
                   | Some n \<Rightarrow>
                       - int (maxsize rt) - 1 \<le> n \<and> n \<le> int (maxsize rt)
                       \<and> (n \<le> 1 \<or> nat n \<le> max_str_len rt)))
          \<and> (case get_truthy d (cps ''opening_hours'') of
                None \<Rightarrow> True | Some (PDict h) \<Rightarrow> True | Some _ \<Rightarrow> False)
      | _ \<Rightarrow> False)"

text \<open>The loop: the blocks in order, or the first exception.\<close>

fun format_places :: "runtime \<Rightarrow> pyval list \<Rightarrow> pyexc + pystr list" where
  "format_places rt [] = Inr []"
| "format_places rt (place # places) =
     (case format_place rt place of
        Inl e \<Rightarrow> Inl e
      | Inr info \<Rightarrow>
          (case format_places rt places of
             Inl e \<Rightarrow> Inl e
           | Inr place_info \<Rightarrow> Inr (info # place_info)))"

definition get_or_none :: "pydict \<Rightarrow> pystr \<Rightarrow> pyval" where
  "get_or_none d k = (case dict_get d k of None \<Rightarrow> PNone | Some v \<Rightarrow> v)"

text \<open>
  What is done with the parsed reply of a 200 response. Only a dict has \<open>get\<close>, so a
  reply or a \<open>data\<close> of another kind raises; \<open>places[:5]\<close> of a non-empty value
  that is no list gives nothing the loop body accepts, and raises as well.
\<close>

definition extract_places :: "runtime \<Rightarrow> pyval \<Rightarrow> pyexc + pyval" where
  "extract_places rt result =
     (case result of
        PDict r \<Rightarrow>
          if truthy (get_or_none r (cps ''success'')) \<and> dict_get r (cps ''data'') \<noteq> None then
            (case py_getitem result (cps ''data'') of
               Inl e \<Rightarrow> Inl e
             | Inr data \<Rightarrow>
                 (case data of
                    PDict d \<Rightarrow>
                      (let places = (case dict_get d (cps ''places'') of
                                       None \<Rightarrow> PList [] | Some v \<Rightarrow> v)
                       in if truthy places then
                            (case places of
                               PList ps \<Rightarrow>
                                 (case format_places rt (take 5 ps) of
                                    Inl e \<Rightarrow> Inl e
                                  | Inr place_info \<Rightarrow>
                                      Inr (PDict
                                        [(cps ''formatted_places'', PList (map PStr place_info)),
                                         (cps ''map_url'', get_or_none d (cps ''map_url'')),
                                         (cps ''directions_url'',
                                            get_or_none d (cps ''directions_url'')),
                                         (cps ''center'', get_or_none d (cps ''center'')),
                                         (cps ''zoom'', get_or_none d (cps ''zoom'')),
                                         (cps ''raw_data'', result)]))
                             | _ \<Rightarrow> Inl TypeError)
                          else Inr result)
                  | _ \<Rightarrow> Inl AttributeError))
          else Inr result
      | _ \<Rightarrow> Inl AttributeError)"

text \<open>The \<open>try\<close> block of \<open>call_maps_backend\<close>; \<open>PNone\<close> is the \<open>None\<close> it returns.\<close>

definition try_call_maps_backend ::
  "runtime \<Rightarrow> Valves \<Rightarrow> (http_request \<Rightarrow> http_reply) \<Rightarrow> pystr \<Rightarrow> pyexc + pyval" where
  "try_call_maps_backend rt valves post query =
     (case post (maps_request valves query) of
        NoReply \<Rightarrow> Inl RequestException
      | Reply status_code parsed \<Rightarrow>
          if status_code = 200 then
            (case parsed of
               None \<Rightarrow> Inl JSONDecodeError
             | Some result \<Rightarrow> extract_places rt result)
          else Inr PNone)"

text \<open>The two \<open>except\<close> clauses: a \<open>RequestException\<close>, then any \<open>Exception\<close>.\<close>

definition call_maps_backend ::
  "runtime \<Rightarrow> Valves \<Rightarrow> (http_request \<Rightarrow> http_reply) \<Rightarrow> pystr \<Rightarrow> pyexc + pyval" where
  "call_maps_backend rt valves post query =
     (case try_call_maps_backend rt valves post query of
        Inl RequestException \<Rightarrow> Inr PNone
      | Inl e \<Rightarrow> Inr PNone
      | Inr r \<Rightarrow> Inr r)"

section \<open>Pre-call hook\<close>

subsection \<open>Context text\<close>

text \<open>\<open>sep.join(v)\<close>: the strings of a list, the characters of a string, the keys of a dict.\<close>

fun join_strs :: "pystr \<Rightarrow> pystr list \<Rightarrow> pystr" where
  "join_strs sep [] = []"
| "join_strs sep [x] = x"
| "join_strs sep (x # y # ys) = x @ sep @ join_strs sep (y # ys)"

fun the_strs :: "pyval list \<Rightarrow> pystr list option" where
  "the_strs [] = Some []"
| "the_strs (PStr s # vs) = (case the_strs vs of None \<Rightarrow> None | Some ss \<Rightarrow> Some (s # ss))"
| "the_strs (v # vs) = None"

fun py_join :: "pystr \<Rightarrow> pyval \<Rightarrow> pyexc + pystr" where
  "py_join sep (PList vs) =
     (case the_strs vs of None \<Rightarrow> Inl TypeError | Some ss \<Rightarrow> Inr (join_strs sep ss))"
| "py_join sep (PStr s) = Inr (join_strs sep (map (\<lambda>c. [c]) s))"
| "py_join sep (PDict d) = Inr (join_strs sep (map fst d))"
| "py_join sep v = Inl TypeError"

text \<open>The text the f-string of \<open>create_maps_context\<close> builds from its four values.\<close>

definition maps_context_text :: "pystr \<Rightarrow> pystr \<Rightarrow> pystr \<Rightarrow> pystr \<Rightarrow> pystr" where
  "maps_context_text query places_text map_url directions_url =
     cps ''GOOGLE MAPS SEARCH RESULTS for query: '' @ [34] @ query @ [34, 10, 10]
     @ cps ''FOUND LOCATIONS:'' @ [10]
     @ places_text @ [10, 10]
     @ cps ''MAP LINKS:'' @ [10]
     @ cps ''- View on Google Maps: '' @ map_url @ [10]
     @ cps ''- Get Directions: '' @ directions_url @ [10, 10]
     @ cps ''Please use this Google Maps data to provide a helpful response about these locations.''"

definition create_maps_context :: "runtime \<Rightarrow> pyval \<Rightarrow> pystr \<Rightarrow> pyexc + pystr" where
  "create_maps_context rt maps_data query =
     (case py_get maps_data (cps ''formatted_places'') (PList []) of
        Inl e \<Rightarrow> Inl e
      | Inr formatted_places \<Rightarrow>
     (case py_get maps_data (cps ''map_url'') (PStr []) of
        Inl e \<Rightarrow> Inl e
      | Inr map_url \<Rightarrow>
     (case py_get maps_data (cps ''directions_url'') (PStr []) of
        Inl e \<Rightarrow> Inl e
      | Inr directions_url \<Rightarrow>
     (case (if truthy formatted_places then py_join [10, 10] formatted_places
            else Inr (cps ''No places found'')) of
        Inl e \<Rightarrow> Inl e
      | Inr places_text \<Rightarrow>
          Inr (maps_context_text query places_text
                 (py_str rt map_url) (py_str rt directions_url))))))"

definition system_message :: "pystr \<Rightarrow> pyval" where
  "system_message maps_context =
     PDict [(cps ''role'', PStr (cps ''system'')),
            (cps ''content'', PStr (
               cps ''You are GoogleMapsAI, an intelligent assistant that helps users find locations using Google Maps data.''
             @ [10, 10] @ maps_context @ [10, 10]
             @ cps ''Please provide a helpful, conversational response about these locations. Include:'' @ [10]
             @ cps ''1. A brief summary of what was found'' @ [10]
             @ cps ''2. Key details about the top locations (name, rating, address)'' @ [10]
             @ cps ''3. Helpful suggestions or recommendations'' @ [10]
             @ cps ''4. Map and directions links when relevant'' @ [10, 10]
             @ cps ''Be natural, friendly, and informative in your response.''))]"

subsection \<open>Turn limit\<close>

text \<open>\<open>len(x)\<close>, and \<open>x[-1]\<close>.\<close>

fun py_len :: "pyval \<Rightarrow> pyexc + nat" where
  "py_len (PList xs) = Inr (length xs)"
| "py_len (PStr s) = Inr (length s)"
| "py_len (PDict d) = Inr (length d)"
| "py_len v = Inl TypeError"

fun py_last :: "pyval \<Rightarrow> pyexc + pyval" where
  "py_last (PList xs) = (if xs = [] then Inl IndexError else Inr (last xs))"
| "py_last (PStr s) = (if s = [] then Inl IndexError else Inr (PStr [last s]))"
| "py_last (PDict d) = Inl KeyError"
| "py_last v = Inl TypeError"

text \<open>\<open>body.get("messages", [])\<close>.\<close>

definition get_messages :: "pydict \<Rightarrow> pyval" where
  "get_messages body =
     (case dict_get body (cps ''messages'') of None \<Rightarrow> PList [] | Some v \<Rightarrow> v)"

text \<open>
  The guard's condition \<open>__user__ and __user__.get("role", "admin") in ["user", "admin"]\<close>:
  an absent user and an empty dict are both false.
\<close>

definition user_is_checked :: "pydict option \<Rightarrow> bool" where
  "user_is_checked user =
     (case user of
        None \<Rightarrow> False
      | Some u \<Rightarrow>
          u \<noteq> [] \<and>
          (case dict_get u (cps ''role'') of None \<Rightarrow> PStr (cps ''admin'') | Some r \<Rightarrow> r)
            \<in> set [PStr (cps ''user''), PStr (cps ''admin'')])"

text \<open>\<open>hasattr(v, 'max_turns')\<close> with the attribute's value, and the same for the flag.\<close>

fun attr_max_turns :: "pyval \<Rightarrow> int option" where
  "attr_max_turns (PObj mt en) = mt"
| "attr_max_turns v = None"

fun attr_enable_maps_for_user :: "pyval \<Rightarrow> bool option" where
  "attr_enable_maps_for_user (PObj mt en) = en"
| "attr_enable_maps_for_user v = None"

text \<open>\<open>__user__.get("valves")\<close>, or \<open>None\<close> without a user.\<close>

definition valves_of_user :: "pydict option \<Rightarrow> pyval" where
  "valves_of_user user =
     (case user of None \<Rightarrow> PNone | Some u \<Rightarrow> if u \<noteq> [] then get_or_none u (cps ''valves'') else PNone)"

definition user_max_turns :: "pydict option \<Rightarrow> int" where
  "user_max_turns user =
     (let user_valves = valves_of_user user
      in if truthy user_valves
         then (case attr_max_turns user_valves of None \<Rightarrow> 4 | Some mt \<Rightarrow> mt)
         else 4)"

definition effective_max_turns :: "Valves \<Rightarrow> pydict option \<Rightarrow> int" where
  "effective_max_turns valves user = min (user_max_turns user) (max_turns valves)"

definition turn_limit_message :: "int \<Rightarrow> pystr" where
  "turn_limit_message m = cps ''Conversation turn limit exceeded. Max turns: '' @ show_int m"

definition check_turn_limit :: "Valves \<Rightarrow> pydict \<Rightarrow> pydict option \<Rightarrow> pyexc + unit" where
  "check_turn_limit valves body user =
     (if user_is_checked user then
        (let messages = get_messages body;
             m = effective_max_turns valves user
         in case py_len messages of
              Inl e \<Rightarrow> Inl e
            | Inr n \<Rightarrow> if int n > m then Inl (Exception (turn_limit_message m)) else Inr ())
      else Inr ())"

subsection \<open>The hook\<close>

definition maps_disabled_for_user :: "pydict option \<Rightarrow> bool" where
  "maps_disabled_for_user user =
     (let user_valves = valves_of_user user
      in truthy user_valves \<and> attr_enable_maps_for_user user_valves = Some False)"

text \<open>
  \<open>inlet\<close> gives the body it returns, or the exception it raises, together with the
  requests it has sent to the backend, in order. What the hooks print is left out; where a
  \<open>print\<close> evaluates \<open>len(messages)\<close>, that evaluation is kept, since it can raise.
\<close>

definition inject_context ::
  "runtime \<Rightarrow> pydict \<Rightarrow> pyval \<Rightarrow> pyval \<Rightarrow> pystr \<Rightarrow> pyexc + pydict" where
  "inject_context rt body messages maps_result user_query =
     (case create_maps_context rt maps_result user_query of
        Inl e \<Rightarrow> Inl e
      | Inr maps_context \<Rightarrow>
          (case messages of
             PList ms \<Rightarrow>
               Inr (dict_set (cps ''messages'') (PList (system_message maps_context # ms)) body)
           | _ \<Rightarrow> Inl TypeError))"

definition inlet ::
  "runtime \<Rightarrow> Valves \<Rightarrow> (http_request \<Rightarrow> http_reply) \<Rightarrow> pydict \<Rightarrow> pydict option
     \<Rightarrow> (pyexc + pydict) \<times> http_request list" where
  "inlet rt valves post body user =
     (case check_turn_limit valves body user of
        Inl e \<Rightarrow> (Inl e, [])
      | Inr _ \<Rightarrow>
          if \<not> enable_maps_integration valves then (Inr body, [])
          else if maps_disabled_for_user user then (Inr body, [])
          else
            (let messages = get_messages body
             in case py_len messages of
                  Inl e \<Rightarrow> (Inl e, [])
                | Inr n \<Rightarrow>
                    if \<not> truthy messages then (Inr body, [])
                    else
                      (case py_last messages of
                         Inl e \<Rightarrow> (Inl e, [])
                       | Inr latest_message \<Rightarrow>
                      (case py_get latest_message (cps ''role'') PNone of
                         Inl e \<Rightarrow> (Inl e, [])
                       | Inr role \<Rightarrow>
                           if role \<noteq> PStr (cps ''user'') then (Inr body, [])
                           else
                      (case py_get latest_message (cps ''content'') (PStr []) of
                         Inl e \<Rightarrow> (Inl e, [])
                       | Inr (PStr user_query) \<Rightarrow>
                           if is_location_query rt user_query then
                             (case call_maps_backend rt valves post user_query of
                                Inl e \<Rightarrow> (Inl e, [maps_request valves user_query])
                              | Inr maps_result \<Rightarrow>
                                  if truthy maps_result then
                                    (inject_context rt body messages maps_result user_query,
                                     [maps_request valves user_query])
                                  else (Inr body, [maps_request valves user_query]))
                           else (Inr body, [])
                       | Inr _ \<Rightarrow> (Inl AttributeError, []))))))"

section \<open>A runtime for worked examples\<close>

text \<open>
  The theorems below hold for every runtime. Where one is evaluated at a concrete input,
  this runtime is used: it leaves a code point beyond ASCII as it is, prints a list, a dict
  or an object as an ellipsis, has the largest index of a 64-bit machine, and memory for
  strings of up to \<open>2 ^ 30\<close> code points.
\<close>

definition example_runtime :: runtime where
  "example_runtime =
     \<lparr> lower_nonascii = (\<lambda>seen c rest. [c]), repr_compound = (\<lambda>v. cps ''...''),
       maxsize = 9223372036854775807, max_str_len = 1073741824 \<rparr>"

text \<open>A backend that gives the same reply to every request.\<close>

definition backend_replying :: "http_reply \<Rightarrow> http_request \<Rightarrow> http_reply" where
  "backend_replying reply request = reply"

text \<open>Places as the backend sends them: one with every field, and one with the two required.\<close>

definition full_place :: pyval where
  "full_place =
     PDict [(cps ''name'', PStr (cps ''Warung Sate'')),
            (cps ''rating'', PFloat (cps ''4.5'')),
            (cps ''formatted_address'', PStr (cps ''Jl. Sudirman 1'')),
            (cps ''price_level'', PInt 2),
            (cps ''website'', PStr (cps ''https://sate.example'')),
            (cps ''formatted_phone_number'', PStr (cps ''+62 21 555'')),
            (cps ''opening_hours'', PDict [(cps ''open_now'', PBool True)])]"

definition plain_place :: "pystr \<Rightarrow> pystr \<Rightarrow> pyval" where
  "plain_place name addr =
     PDict [(cps ''name'', PStr name), (cps ''formatted_address'', PStr addr)]"

definition seven_places :: "pyval list" where
  "seven_places =
     [full_place,
      plain_place (cps ''Cafe 2'') (cps ''2 Main St''),
      plain_place (cps ''Cafe 3'') (cps ''3 Main St''),
      plain_place (cps ''Cafe 4'') (cps ''4 Main St''),
      plain_place (cps ''Cafe 5'') (cps ''5 Main St''),
      plain_place (cps ''Cafe 6'') (cps ''6 Main St''),
      plain_place (cps ''Cafe 7'') (cps ''7 Main St'')]"

text \<open>A successful reply of the backend with the given places.\<close>

definition places_reply :: "pyval list \<Rightarrow> pydict" where
  "places_reply ps =
     [(cps ''success'', PBool True),
      (cps ''data'', PDict [(cps ''places'', PList ps),
                            (cps ''map_url'', PStr (cps ''https://maps.example/view'')),
                            (cps ''directions_url'', PStr (cps ''https://maps.example/dir''))])]"

text \<open>Request bodies as the host sends them, and a conversation of nine messages.\<close>

definition user_message :: "pystr \<Rightarrow> pyval" where
  "user_message content = PDict [(cps ''role'', PStr (cps ''user'')), (cps ''content'', PStr content)]"

definition assistant_message :: "pystr \<Rightarrow> pyval" where
  "assistant_message content =
     PDict [(cps ''role'', PStr (cps ''assistant'')), (cps ''content'', PStr content)]"

definition chat_body :: "pyval list \<Rightarrow> pydict" where
  "chat_body ms = [(cps ''model'', PStr (cps ''llama3'')), (cps ''messages'', PList ms)]"

definition nine_messages :: "pyval list" where
  "nine_messages =
     [user_message (cps ''Hi''), assistant_message (cps ''Hello''),
      user_message (cps ''Hi''), assistant_message (cps ''Hello''),
      user_message (cps ''Hi''), assistant_message (cps ''Hello''),
      user_message (cps ''Hi''), assistant_message (cps ''Hello''),
      user_message (cps ''Tell me a joke'')]"

section \<open>Basic facts\<close>

lemmas emoji_defs = map_emoji_def pin_emoji_def star_emoji_def compass_emoji_def

lemma cps_eq_iff [simp]: "cps a = cps b \<longleftrightarrow> a = b"
  by (simp add: cps_def inj_map_eq_map inj_on_def)

lemma cps_Nil_iff [simp]: "cps a = [] \<longleftrightarrow> a = []"
  by (simp add: cps_def)

section \<open>The response enhancer and the post-call hook\<close>

lemma enhance_rating:
  "enhance_maps_response (cps ''Rating'') = star_emoji @ cps '' Rating''"
  by (simp add: enhance_maps_response_def cps_def starts_with_def emoji_defs)

lemma enhance_rating_twice:
  "enhance_maps_response (star_emoji @ cps '' Rating'')
     = star_emoji @ cps '' Rating '' @ star_emoji @ cps '' Rating''"
  by (simp add: enhance_maps_response_def cps_def starts_with_def emoji_defs)

lemma enhance_example:
  "enhance_maps_response (cps ''Address: 123 Main St, Rating 4.5'')
     = pin_emoji @ cps '' Address: 123 Main St, '' @ star_emoji @ cps '' Rating 4.5''"
  by (simp add: enhance_maps_response_def cps_def starts_with_def emoji_defs)

text \<open>
  Claim C9. The enhancer is not idempotent: there is a text on which a second application
  changes the result of the first. On \<open>Rating\<close> the first application puts the star
  and a blank in front; the second finds both the star and the word, and replaces each.
\<close>

theorem enhance_not_idempotent:
  "\<exists>s. enhance_maps_response (enhance_maps_response s) \<noteq> enhance_maps_response s"
proof
  show "enhance_maps_response (enhance_maps_response (cps ''Rating''))
          \<noteq> enhance_maps_response (cps ''Rating'')"
    unfolding enhance_rating enhance_rating_twice by (simp add: cps_def emoji_defs)
qed

lemma uses_choices_nonempty:
  "dict_get body (cps ''choices'') = Some (PList (x # rest)) \<Longrightarrow> uses_choices body"
  by (simp add: uses_choices_def)

lemma outlet_choices:
  assumes "dict_get body (cps ''choices'') = Some (PList (PDict c # rest))"
    and "dict_get c (cps ''message'') = Some (PDict m)"
    and "dict_get m (cps ''content'') = Some (PStr reply)"
    and "reply \<noteq> []"
  shows "outlet body =
    Inr (dict_set (cps ''choices'')
           (PList (PDict (dict_set (cps ''message'')
              (PDict (dict_set (cps ''content'') (PStr (enhance_maps_response reply)) m)) c) # rest))
           body)"
  using assms
  by (simp add: outlet_def response_content_def store_choice_content_def uses_choices_nonempty)

lemma outlet_message:
  assumes "\<not> uses_choices body"
    and "dict_get body (cps ''message'') = Some (PDict m)"
    and "dict_get m (cps ''content'') = Some (PStr reply)"
    and "reply \<noteq> []"
  shows "outlet body =
    Inr (dict_set (cps ''message'')
           (PDict (dict_set (cps ''content'') (PStr (enhance_maps_response reply)) m)) body)"
  using assms
  by (simp add: outlet_def response_content_def store_message_content_def)

text \<open>
  Claim C8, as the code has it. For the reply text \<open>Address: 123 Main St, Rating 4.5\<close>
  the post-call hook yields the map pin and a blank in front of \<open>Address:\<close> and the star,
  once, and a blank in front of \<open>Rating\<close>. The new text is stored where the old one was
  read: in \<open>choices[0].message.content\<close> when the body has a non-empty \<open>choices\<close>,
  in \<open>message.content\<close> otherwise; everything else in the body stays.
\<close>

theorem outlet_example:
  "(dict_get body (cps ''choices'') = Some (PList (PDict c # rest))
      \<and> dict_get c (cps ''message'') = Some (PDict m)
      \<and> dict_get m (cps ''content'') = Some (PStr (cps ''Address: 123 Main St, Rating 4.5''))
    \<longrightarrow> outlet body =
        Inr (dict_set (cps ''choices'')
               (PList (PDict (dict_set (cps ''message'')
                  (PDict (dict_set (cps ''content'')
                     (PStr (pin_emoji @ cps '' Address: 123 Main St, ''
                            @ star_emoji @ cps '' Rating 4.5'')) m)) c) # rest)) body))
   \<and> (\<not> uses_choices body
      \<and> dict_get body (cps ''message'') = Some (PDict m)
      \<and> dict_get m (cps ''content'') = Some (PStr (cps ''Address: 123 Main St, Rating 4.5''))
    \<longrightarrow> outlet body =
        Inr (dict_set (cps ''message'')
               (PDict (dict_set (cps ''content'')
                  (PStr (pin_emoji @ cps '' Address: 123 Main St, ''
                         @ star_emoji @ cps '' Rating 4.5'')) m)) body))"
  using outlet_choices [of body c rest m "cps ''Address: 123 Main St, Rating 4.5''"]
    outlet_message [of body m "cps ''Address: 123 Main St, Rating 4.5''"]
  by (simp add: enhance_example)

theorem outlet_example_witness:
  "outlet [(cps ''choices'', PList [PDict [(cps ''message'',
        PDict [(cps ''content'', PStr (cps ''Address: 123 Main St, Rating 4.5''))])]])]
     = Inr [(cps ''choices'', PList [PDict [(cps ''message'',
        PDict [(cps ''content'',
          PStr (pin_emoji @ cps '' Address: 123 Main St, '' @ star_emoji @ cps '' Rating 4.5''))])]])]
   \<and> \<not> uses_choices [(cps ''message'',
        PDict [(cps ''content'', PStr (cps ''Address: 123 Main St, Rating 4.5''))])]
   \<and> outlet [(cps ''message'',
        PDict [(cps ''content'', PStr (cps ''Address: 123 Main St, Rating 4.5''))])]
     = Inr [(cps ''message'', PDict [(cps ''content'',
          PStr (pin_emoji @ cps '' Address: 123 Main St, '' @ star_emoji @ cps '' Rating 4.5''))])]"
  using outlet_example [of
      "[(cps ''choices'', PList [PDict [(cps ''message'',
          PDict [(cps ''content'', PStr (cps ''Address: 123 Main St, Rating 4.5''))])]])]"
      "[(cps ''message'',
          PDict [(cps ''content'', PStr (cps ''Address: 123 Main St, Rating 4.5''))])]"
      "[]"
      "[(cps ''content'', PStr (cps ''Address: 123 Main St, Rating 4.5''))]"]
    outlet_example [of
      "[(cps ''message'',
          PDict [(cps ''content'', PStr (cps ''Address: 123 Main St, Rating 4.5''))])]"
      "[]" "[]"
      "[(cps ''content'', PStr (cps ''Address: 123 Main St, Rating 4.5''))]"]
  by (simp add: dict_get_def uses_choices_def)

text \<open>
  Claim C8, as the specification has it, asks for the star twice in front of \<open>Rating\<close>.
  On the reply in the first shape the hook yields the text below, which holds the star
  exactly once.
\<close>

theorem outlet_star_once:
  "outlet [(cps ''choices'', PList [PDict [(cps ''message'',
        PDict [(cps ''content'', PStr (cps ''Address: 123 Main St, Rating 4.5''))])]])]
     = Inr [(cps ''choices'', PList [PDict [(cps ''message'',
        PDict [(cps ''content'',
          PStr (pin_emoji @ cps '' Address: 123 Main St, '' @ star_emoji @ cps '' Rating 4.5''))])]])]
   \<and> count_list (pin_emoji @ cps '' Address: 123 Main St, '' @ star_emoji @ cps '' Rating 4.5'')
         (hd star_emoji) = 1"
proof -
  have "cps ''Address: 123 Main St, Rating 4.5'' \<noteq> []" by simp
  then show ?thesis
    using outlet_choices [of
      "[(cps ''choices'', PList [PDict [(cps ''message'',
          PDict [(cps ''content'', PStr (cps ''Address: 123 Main St, Rating 4.5''))])]])]"
      "[(cps ''message'',
          PDict [(cps ''content'', PStr (cps ''Address: 123 Main St, Rating 4.5''))])]"
      "[]"
      "[(cps ''content'', PStr (cps ''Address: 123 Main St, Rating 4.5''))]"
      "cps ''Address: 123 Main St, Rating 4.5''"]
    by (simp add: dict_get_def enhance_example) (simp add: cps_def emoji_defs)
qed

section \<open>The query classifier\<close>

lemma starts_with_iff: "starts_with s p \<longleftrightarrow> (\<exists>q. s = p @ q)"
  unfolding starts_with_def
  by (metis append_eq_conv_conj append_take_drop_id)

lemma str_contains_iff: "str_contains k s \<longleftrightarrow> (\<exists>p q. s = p @ k @ q)"
proof (induction s)
  case Nil
  then show ?case by auto
next
  case (Cons c cs)
  show ?case
  proof
    assume "str_contains k (c # cs)"
    then consider "starts_with (c # cs) k" | "str_contains k cs" by auto
    then show "\<exists>p q. c # cs = p @ k @ q"
    proof cases
      case 1
      then obtain q where "c # cs = k @ q" by (auto simp: starts_with_iff)
      then have "c # cs = [] @ k @ q" by simp
      then show ?thesis by blast
    next
      case 2
      then obtain p q where "cs = p @ k @ q" using Cons.IH by blast
      then have "c # cs = (c # p) @ k @ q" by simp
      then show ?thesis by blast
    qed
  next
    assume "\<exists>p q. c # cs = p @ k @ q"
    then obtain p q where pq: "c # cs = p @ k @ q" by blast
    show "str_contains k (c # cs)"
    proof (cases p)
      case Nil
      with pq have "starts_with (c # cs) k" by (auto simp: starts_with_iff)
      then show ?thesis by simp
    next
      case (Cons a p')
      with pq have "cs = p' @ k @ q" by simp
      then have "str_contains k cs" using Cons.IH by blast
      then show ?thesis by simp
    qed
  qed
qed

lemma lower_joke: "py_lower example_runtime (cps ''Tell me a joke'') = cps ''tell me a joke''"
  by (simp add: py_lower_def example_runtime_def cps_def ascii_lower_def)

lemma joke_is_no_location: "\<not> is_location_query example_runtime (cps ''Tell me a joke'')"
  unfolding is_location_query_def lower_joke
  by (simp add: location_keywords_def cps_def starts_with_def)

lemma lower_chars_positions:
  "lower_chars rt seen s =
     concat (map (\<lambda>i. if s ! i < 128
                       then [if 65 \<le> s ! i \<and> s ! i \<le> 90 then s ! i + 32 else s ! i]
                       else lower_nonascii rt (seen @ take i s) (s ! i) (drop (Suc i) s))
                 [0..<length s])"
proof (induction s arbitrary: seen)
  case Nil
  show ?case by simp
next
  case (Cons c cs)
  have "[0..<length (c # cs)] = 0 # map Suc [0..<length cs]"
    by (simp add: upt_conv_Cons map_Suc_upt del: upt_Suc)
  then show ?case
    by (simp add: Cons.IH [of "seen @ [c]"] ascii_lower_def comp_def del: upt_Suc cong: if_cong)
qed

lemma py_lower_positions:
  "py_lower rt message =
     concat (map (\<lambda>i. if message ! i < 128
                       then [if 65 \<le> message ! i \<and> message ! i \<le> 90
                             then message ! i + 32 else message ! i]
                       else lower_nonascii rt (take i message) (message ! i)
                              (drop (Suc i) message))
                 [0..<length message])"
  using lower_chars_positions [of rt "[]" message] by (simp add: py_lower_def cong: if_cong)

lemma lower_chars_ascii_prefix:
  "\<forall>c\<in>set w. c < 128 \<Longrightarrow>
     lower_chars rt seen (w @ q) = map ascii_lower w @ lower_chars rt (seen @ w) q"
  by (induction w arbitrary: seen) auto

lemma lower_chars_suffix:
  "\<exists>pre. lower_chars rt seen (p @ s) = pre @ lower_chars rt (seen @ p) s"
proof (induction p arbitrary: seen)
  case Nil
  show ?case by simp
next
  case (Cons c p)
  from Cons [of "seen @ [c]"] obtain pre where
    "lower_chars rt (seen @ [c]) (p @ s) = pre @ lower_chars rt (seen @ c # p) s"
    by auto
  then show ?case by simp
qed

lemma lowers_beyond_tail:
  assumes "\<forall>i<length (c # cs). 128 \<le> (c # cs) ! i \<longrightarrow>
             lower_nonascii rt (seen @ take i (c # cs)) ((c # cs) ! i) (drop (Suc i) (c # cs)) \<noteq> []
             \<and> (\<forall>x\<in>set (lower_nonascii rt (seen @ take i (c # cs)) ((c # cs) ! i)
                            (drop (Suc i) (c # cs))). 128 \<le> x)"
  shows "\<forall>i<length cs. 128 \<le> cs ! i \<longrightarrow>
             lower_nonascii rt ((seen @ [c]) @ take i cs) (cs ! i) (drop (Suc i) cs) \<noteq> []
             \<and> (\<forall>x\<in>set (lower_nonascii rt ((seen @ [c]) @ take i cs) (cs ! i)
                            (drop (Suc i) cs)). 128 \<le> x)"
proof (intro allI impI)
  fix i assume "i < length cs" and "128 \<le> cs ! i"
  then show "lower_nonascii rt ((seen @ [c]) @ take i cs) (cs ! i) (drop (Suc i) cs) \<noteq> []
             \<and> (\<forall>x\<in>set (lower_nonascii rt ((seen @ [c]) @ take i cs) (cs ! i)
                            (drop (Suc i) cs)). 128 \<le> x)"
    using assms [rule_format, of "Suc i"] by simp
qed

lemma lowers_beyond_head:
  assumes "\<forall>i<length (c # cs). 128 \<le> (c # cs) ! i \<longrightarrow>
             lower_nonascii rt (seen @ take i (c # cs)) ((c # cs) ! i) (drop (Suc i) (c # cs)) \<noteq> []
             \<and> (\<forall>x\<in>set (lower_nonascii rt (seen @ take i (c # cs)) ((c # cs) ! i)
                            (drop (Suc i) (c # cs))). 128 \<le> x)"
    and "128 \<le> c"
  shows "lower_nonascii rt seen c cs \<noteq> [] \<and> (\<forall>x\<in>set (lower_nonascii rt seen c cs). 128 \<le> x)"
  using assms(1) [rule_format, of 0] assms(2) by simp

lemma lower_chars_prefix_piece:
  fixes k :: pystr
  assumes "\<forall>c\<in>set k. c < 128"
    and "\<forall>i<length s. 128 \<le> s ! i \<longrightarrow>
             lower_nonascii rt (seen @ take i s) (s ! i) (drop (Suc i) s) \<noteq> []
             \<and> (\<forall>x\<in>set (lower_nonascii rt (seen @ take i s) (s ! i) (drop (Suc i) s)). 128 \<le> x)"
    and "lower_chars rt seen s = k @ q"
  shows "\<exists>w q'. s = w @ q' \<and> map ascii_lower w = k"
  using assms
proof (induction k arbitrary: s seen)
  case Nil
  show ?case by simp
next
  case (Cons a k)
  from Cons.prems(3) obtain c cs where s: "s = c # cs" by (cases s) simp_all
  note good = Cons.prems(2) [unfolded s]
  from Cons.prems(1) have kk: "\<forall>c\<in>set k. c < 128" and a: "a < 128" by simp_all
  show ?case
  proof (cases "c < 128")
    case True
    from Cons.prems(3) have "[ascii_lower c] @ lower_chars rt (seen @ [c]) cs = a # k @ q"
      unfolding s using True by simp
    then have ac: "ascii_lower c = a"
        and rest: "lower_chars rt (seen @ [c]) cs = k @ q"
      by simp_all
    from Cons.IH [OF kk lowers_beyond_tail [OF good] rest]
    obtain w q' where cs: "cs = w @ q'" and w: "map ascii_lower w = k" by blast
    from ac s cs w have "s = (c # w) @ q' \<and> map ascii_lower (c # w) = a # k" by simp
    then show ?thesis by (rule_tac x = "c # w" in exI, rule_tac x = q' in exI)
  next
    case False
    then have "128 \<le> c" by simp
    from lowers_beyond_head [OF good this]
    obtain x xs where img: "lower_nonascii rt seen c cs = x # xs" and x: "128 \<le> x"
      by (cases "lower_nonascii rt seen c cs") simp_all
    from Cons.prems(3) have "(x # xs) @ lower_chars rt (seen @ [c]) cs = a # k @ q"
      unfolding s using False img by simp
    then have "x = a" by simp
    with x a show ?thesis by simp
  qed
qed

lemma lower_chars_infix_piece:
  fixes k :: pystr
  assumes "\<forall>c\<in>set k. c < 128"
    and "\<forall>i<length s. 128 \<le> s ! i \<longrightarrow>
             lower_nonascii rt (seen @ take i s) (s ! i) (drop (Suc i) s) \<noteq> []
             \<and> (\<forall>x\<in>set (lower_nonascii rt (seen @ take i s) (s ! i) (drop (Suc i) s)). 128 \<le> x)"
    and "lower_chars rt seen s = p @ k @ q"
  shows "\<exists>p' w q'. s = p' @ w @ q' \<and> map ascii_lower w = k"
  using assms(2,3)
proof (induction s arbitrary: seen p)
  case Nil
  then have "k = []" by simp
  then show ?case by simp
next
  case (Cons c cs)
  define img where "img = (if c < 128 then [ascii_lower c] else lower_nonascii rt seen c cs)"
  define rest where "rest = lower_chars rt (seen @ [c]) cs"
  have low: "img @ rest = p @ k @ q"
    using Cons.prems(2) by (simp add: img_def rest_def)
  note tail = lowers_beyond_tail [OF Cons.prems(1)]
  show ?case
  proof (cases "k = []")
    case True
    have "c # cs = [] @ [] @ (c # cs) \<and> map ascii_lower [] = k" using True by simp
    then show ?thesis
      by (rule_tac x = "[]" in exI, rule_tac x = "[]" in exI, rule_tac x = "c # cs" in exI)
  next
    case kne: False
    show ?thesis
    proof (cases "length img \<le> length p")
      case True
      from low have "drop (length img) (img @ rest) = drop (length img) (p @ k @ q)"
        by (rule arg_cong)
      with True have "rest = drop (length img) p @ k @ q" by simp
      then have "lower_chars rt (seen @ [c]) cs = drop (length img) p @ k @ q"
        by (simp add: rest_def)
      from Cons.IH [OF tail this] obtain p' w q' where
        cs: "cs = p' @ w @ q'" and w: "map ascii_lower w = k" by blast
      from cs w have "c # cs = (c # p') @ w @ q' \<and> map ascii_lower w = k" by simp
      then show ?thesis
        by (rule_tac x = "c # p'" in exI, rule_tac x = w in exI, rule_tac x = q' in exI)
    next
      case False
      then have lp: "length p < length img" by simp
      from kne obtain a k' where k: "k = a # k'" by (cases k) simp_all
      with assms(1) have a: "a < 128" by simp
      from low have "(img @ rest) ! length p = (p @ k @ q) ! length p"
        by (rule arg_cong)
      with lp k have "img ! length p = a" by (simp add: nth_append)
      with lp have mem: "a \<in> set img" using nth_mem by blast
      have ascii: "c < 128"
      proof (rule ccontr)
        assume n: "\<not> c < 128"
        then have "128 \<le> c" by simp
        from lowers_beyond_head [OF Cons.prems(1) this] mem n
        have "128 \<le> a" by (simp add: img_def)
        with a show False by simp
      qed
      with lp have p: "p = []" by (simp add: img_def)
      from Cons.prems(2) p have "lower_chars rt seen (c # cs) = k @ q" by simp
      from lower_chars_prefix_piece [OF assms(1) Cons.prems(1) this]
      obtain w q' where s: "c # cs = w @ q'" and w: "map ascii_lower w = k" by blast
      from s w have "c # cs = [] @ w @ q' \<and> map ascii_lower w = k" by simp
      then show ?thesis
        by (rule_tac x = "[]" in exI, rule_tac x = w in exI, rule_tac x = q' in exI)
    qed
  qed
qed

lemma keywords_lower_ascii:
  "\<forall>k\<in>set location_keywords. \<forall>c\<in>set k. c < 128 \<and> \<not> (65 \<le> c \<and> c \<le> 90)"
  by (simp add: location_keywords_def cps_def)

lemma up_to_case_iff:
  fixes w k :: pystr
  assumes "\<forall>c\<in>set k. \<not> (65 \<le> c \<and> c \<le> 90)"
  shows "list_all2 (\<lambda>c l. c = l \<or> (65 \<le> c \<and> c \<le> 90 \<and> l = c + 32)) w k
           \<longleftrightarrow> map ascii_lower w = k"
proof -
  have per: "\<forall>i<length k.
      (w ! i = k ! i \<or> (65 \<le> w ! i \<and> w ! i \<le> 90 \<and> k ! i = w ! i + 32))
          \<longleftrightarrow> ascii_lower (w ! i) = k ! i"
  proof (intro allI impI)
    fix i assume "i < length k"
    with assms have "\<not> (65 \<le> k ! i \<and> k ! i \<le> 90)" by (meson nth_mem)
    then show "(w ! i = k ! i \<or> (65 \<le> w ! i \<and> w ! i \<le> 90 \<and> k ! i = w ! i + 32))
          \<longleftrightarrow> ascii_lower (w ! i) = k ! i"
      by (auto simp: ascii_lower_def)
  qed
  show ?thesis
  proof (cases "length w = length k")
    case True
    with per show ?thesis
      by (simp add: list_all2_conv_all_nth list_eq_iff_nth_eq)
  next
    case False
    then show ?thesis
      by (auto simp: list_all2_conv_all_nth)
  qed
qed

lemma up_to_case_ascii:
  fixes w k :: pystr
  assumes "\<forall>c\<in>set k. c < 128"
    and "list_all2 (\<lambda>c l. c = l \<or> (65 \<le> c \<and> c \<le> 90 \<and> l = c + 32)) w k"
  shows "\<forall>c\<in>set w. c < 128"
proof
  fix c assume "c \<in> set w"
  then obtain i where i: "i < length w" "w ! i = c" by (auto simp: in_set_conv_nth)
  from assms(2) i have "length w = length k"
      and "c = k ! i \<or> (65 \<le> c \<and> c \<le> 90 \<and> k ! i = c + 32)"
    by (auto simp: list_all2_conv_all_nth)
  moreover from this(1) i(1) assms(1) have "k ! i < 128" by simp
  ultimately show "c < 128" by auto
qed

lemma is_location_query_infix:
  "is_location_query rt message \<longleftrightarrow>
     (\<exists>keyword\<in>set location_keywords. \<exists>p q. py_lower rt message = p @ keyword @ q)"
  by (simp add: is_location_query_def list_ex_iff str_contains_iff)

lemma piece_up_to_case_is_location:
  assumes "keyword \<in> set location_keywords"
    and "message = p @ w @ q"
    and "list_all2 (\<lambda>c l. c = l \<or> (65 \<le> c \<and> c \<le> 90 \<and> l = c + 32)) w keyword"
  shows "is_location_query rt message"
proof -
  from keywords_lower_ascii assms(1)
  have k: "\<forall>c\<in>set keyword. c < 128" "\<forall>c\<in>set keyword. \<not> (65 \<le> c \<and> c \<le> 90)"
    by blast+
  have w: "\<forall>c\<in>set w. c < 128" by (rule up_to_case_ascii [OF k(1) assms(3)])
  have low: "map ascii_lower w = keyword" using up_to_case_iff [OF k(2)] assms(3) by blast
  obtain pre where "lower_chars rt [] (p @ w @ q) = pre @ lower_chars rt ([] @ p) (w @ q)"
    using lower_chars_suffix [of rt "[]" p "w @ q"] by blast
  then have "py_lower rt message = pre @ keyword @ lower_chars rt (p @ w) q"
    using lower_chars_ascii_prefix [OF w, of rt p q] low assms(2)
    by (simp add: py_lower_def)
  with assms(1) show ?thesis
    unfolding is_location_query_infix by blast
qed

text \<open>
  Claim C4. The classifier is true exactly for the messages whose lower-cased text holds one
  of the fixed keywords as a contiguous piece, where lower-casing takes the message code
  point by code point: \<open>A\<close> to \<open>Z\<close> go to \<open>a\<close> to \<open>z\<close>, any other ASCII code point
  stays, and one beyond ASCII is lower-cased by the runtime. So every message with a
  contiguous piece that equals a keyword up to the case of its letters is classified true;
  and a message whose code points beyond ASCII all lower-case to code points beyond ASCII,
  at least one each (every ASCII message is such a message), is classified true for no
  other reason. Nothing but containment is tested.
\<close>

theorem is_location_query_substring:
  "(is_location_query rt message \<longleftrightarrow>
      (\<exists>keyword\<in>set location_keywords. \<exists>p q. py_lower rt message = p @ keyword @ q))
   \<and> py_lower rt message =
       concat (map (\<lambda>i. if message ! i < 128
                         then [if 65 \<le> message ! i \<and> message ! i \<le> 90
                               then message ! i + 32 else message ! i]
                         else lower_nonascii rt (take i message) (message ! i)
                                (drop (Suc i) message))
                   [0..<length message])
   \<and> ((\<exists>keyword\<in>set location_keywords. \<exists>p w q. message = p @ w @ q
          \<and> list_all2 (\<lambda>c l. c = l \<or> (65 \<le> c \<and> c \<le> 90 \<and> l = c + 32)) w keyword)
        \<longrightarrow> is_location_query rt message)
   \<and> ((\<forall>i<length message. 128 \<le> message ! i \<longrightarrow>
          lower_nonascii rt (take i message) (message ! i) (drop (Suc i) message) \<noteq> []
          \<and> (\<forall>c\<in>set (lower_nonascii rt (take i message) (message ! i)
                         (drop (Suc i) message)). 128 \<le> c)) \<longrightarrow>
        (is_location_query rt message \<longleftrightarrow>
           (\<exists>keyword\<in>set location_keywords. \<exists>p w q. message = p @ w @ q
              \<and> list_all2 (\<lambda>c l. c = l \<or> (65 \<le> c \<and> c \<le> 90 \<and> l = c + 32)) w keyword)))"
proof (intro conjI impI)
  show general: "is_location_query rt message \<longleftrightarrow>
      (\<exists>keyword\<in>set location_keywords. \<exists>p q. py_lower rt message = p @ keyword @ q)"
    by (rule is_location_query_infix)
  show "py_lower rt message =
       concat (map (\<lambda>i. if message ! i < 128
                         then [if 65 \<le> message ! i \<and> message ! i \<le> 90
                               then message ! i + 32 else message ! i]
                         else lower_nonascii rt (take i message) (message ! i)
                                (drop (Suc i) message))
                   [0..<length message])"
    by (rule py_lower_positions)
  show "is_location_query rt message"
    if "\<exists>keyword\<in>set location_keywords. \<exists>p w q. message = p @ w @ q
          \<and> list_all2 (\<lambda>c l. c = l \<or> (65 \<le> c \<and> c \<le> 90 \<and> l = c + 32)) w keyword"
    using that piece_up_to_case_is_location by blast
  show "is_location_query rt message \<longleftrightarrow>
           (\<exists>keyword\<in>set location_keywords. \<exists>p w q. message = p @ w @ q
              \<and> list_all2 (\<lambda>c l. c = l \<or> (65 \<le> c \<and> c \<le> 90 \<and> l = c + 32)) w keyword)"
    if beyond: "\<forall>i<length message. 128 \<le> message ! i \<longrightarrow>
          lower_nonascii rt (take i message) (message ! i) (drop (Suc i) message) \<noteq> []
          \<and> (\<forall>c\<in>set (lower_nonascii rt (take i message) (message ! i)
                         (drop (Suc i) message)). 128 \<le> c)"
  proof
    assume "is_location_query rt message"
    then obtain keyword p q where k: "keyword \<in> set location_keywords"
        and "py_lower rt message = p @ keyword @ q"
      unfolding general by blast
    then have low: "lower_chars rt [] message = p @ keyword @ q"
      by (simp add: py_lower_def)
    from keywords_lower_ascii k
    have ka: "\<forall>c\<in>set keyword. c < 128"
        and kl: "\<forall>c\<in>set keyword. \<not> (65 \<le> c \<and> c \<le> 90)" by blast+
    from beyond have "\<forall>i<length message. 128 \<le> message ! i \<longrightarrow>
          lower_nonascii rt ([] @ take i message) (message ! i) (drop (Suc i) message) \<noteq> []
          \<and> (\<forall>c\<in>set (lower_nonascii rt ([] @ take i message) (message ! i)
                         (drop (Suc i) message)). 128 \<le> c)"
      by simp
    from lower_chars_infix_piece [OF ka this low]
    obtain p' w q' where m: "message = p' @ w @ q'" and "map ascii_lower w = keyword"
      by blast
    with kl have "list_all2 (\<lambda>c l. c = l \<or> (65 \<le> c \<and> c \<le> 90 \<and> l = c + 32)) w keyword"
      using up_to_case_iff [of keyword w] by blast
    with k m show "\<exists>keyword\<in>set location_keywords. \<exists>p w q. message = p @ w @ q
              \<and> list_all2 (\<lambda>c l. c = l \<or> (65 \<le> c \<and> c \<le> 90 \<and> l = c + 32)) w keyword"
      by blast
  next
    assume "\<exists>keyword\<in>set location_keywords. \<exists>p w q. message = p @ w @ q
              \<and> list_all2 (\<lambda>c l. c = l \<or> (65 \<le> c \<and> c \<le> 90 \<and> l = c + 32)) w keyword"
    then show "is_location_query rt message"
      using piece_up_to_case_is_location by blast
  qed
qed

lemma shout_is_location: "is_location_query example_runtime (cps ''WHERE IS THE BANK?'')"
  by (simp add: is_location_query_def py_lower_def example_runtime_def cps_def ascii_lower_def
      location_keywords_def starts_with_def)

lemma terdekat_keyword: "cps ''terdekat'' \<in> set location_keywords"
  by (simp add: location_keywords_def)

lemma terdekat_up_to_case:
  "list_all2 (\<lambda>c l. c = l \<or> (65 \<le> c \<and> c \<le> 90 \<and> l = c + 32))
     (cps ''TERDEKAT'') (cps ''terdekat'')"
  by (simp add: cps_def)

lemma kafe_accent_is_no_location: "\<not> is_location_query example_runtime [75, 97, 102, 233]"
  by (simp add: is_location_query_def py_lower_def example_runtime_def cps_def ascii_lower_def
      location_keywords_def starts_with_def)

lemma example_runtime_lowers_beyond:
  "\<forall>i<length message. 128 \<le> message ! i \<longrightarrow>
     lower_nonascii example_runtime (take i message) (message ! i) (drop (Suc i) message) \<noteq> []
     \<and> (\<forall>c\<in>set (lower_nonascii example_runtime (take i message) (message ! i)
                    (drop (Suc i) message)). 128 \<le> c)"
  by (simp add: example_runtime_def)

theorem is_location_query_substring_witness:
  "is_location_query example_runtime (cps ''WHERE IS THE BANK?'')
   \<and> (\<exists>keyword\<in>set location_keywords.
         \<exists>p w q. cps ''WHERE IS THE BANK?'' = p @ w @ q
           \<and> list_all2 (\<lambda>c l. c = l \<or> (65 \<le> c \<and> c \<le> 90 \<and> l = c + 32)) w keyword)
   \<and> is_location_query example_runtime ([75, 97, 102, 233, 32] @ cps ''TERDEKAT'')
   \<and> \<not> is_location_query example_runtime [75, 97, 102, 233]
   \<and> \<not> (\<exists>keyword\<in>set location_keywords.
         \<exists>p w q. [75, 97, 102, 233] = p @ w @ q
           \<and> list_all2 (\<lambda>c l. c = l \<or> (65 \<le> c \<and> c \<le> 90 \<and> l = c + 32)) w keyword)
   \<and> \<not> is_location_query example_runtime (cps ''Tell me a joke'')
   \<and> \<not> (\<exists>keyword\<in>set location_keywords.
         \<exists>p w q. cps ''Tell me a joke'' = p @ w @ q
           \<and> list_all2 (\<lambda>c l. c = l \<or> (65 \<le> c \<and> c \<le> 90 \<and> l = c + 32)) w keyword)"
proof (intro conjI)
  show "is_location_query example_runtime (cps ''WHERE IS THE BANK?'')"
    by (rule shout_is_location)
  show "\<exists>keyword\<in>set location_keywords.
         \<exists>p w q. cps ''WHERE IS THE BANK?'' = p @ w @ q
           \<and> list_all2 (\<lambda>c l. c = l \<or> (65 \<le> c \<and> c \<le> 90 \<and> l = c + 32)) w keyword"
    by (rule is_location_query_substring [THEN conjunct2, THEN conjunct2, THEN conjunct2,
          THEN mp, OF example_runtime_lowers_beyond, THEN iffD1, OF shout_is_location])
  have "\<exists>keyword\<in>set location_keywords.
         \<exists>p w q. [75, 97, 102, 233, 32] @ cps ''TERDEKAT'' = p @ w @ q
           \<and> list_all2 (\<lambda>c l. c = l \<or> (65 \<le> c \<and> c \<le> 90 \<and> l = c + 32)) w keyword"
    by (rule bexI [OF _ terdekat_keyword], rule exI [of _ "[75, 97, 102, 233, 32]"],
        rule exI [of _ "cps ''TERDEKAT''"], rule exI [of _ "[]"])
       (simp add: terdekat_up_to_case)
  then show "is_location_query example_runtime ([75, 97, 102, 233, 32] @ cps ''TERDEKAT'')"
    by (rule is_location_query_substring [THEN conjunct2, THEN conjunct2, THEN conjunct1,
          THEN mp])
  show "\<not> is_location_query example_runtime [75, 97, 102, 233]"
    by (rule kafe_accent_is_no_location)
  show "\<not> (\<exists>keyword\<in>set location_keywords.
         \<exists>p w q. [75, 97, 102, 233] = p @ w @ q
           \<and> list_all2 (\<lambda>c l. c = l \<or> (65 \<le> c \<and> c \<le> 90 \<and> l = c + 32)) w keyword)"
    by (rule contrapos_nn [OF kafe_accent_is_no_location
          is_location_query_substring [THEN conjunct2, THEN conjunct2, THEN conjunct2,
            THEN mp, OF example_runtime_lowers_beyond, THEN iffD2]])
  show "\<not> is_location_query example_runtime (cps ''Tell me a joke'')"
    by (rule joke_is_no_location)
  show "\<not> (\<exists>keyword\<in>set location_keywords.
         \<exists>p w q. cps ''Tell me a joke'' = p @ w @ q
           \<and> list_all2 (\<lambda>c l. c = l \<or> (65 \<le> c \<and> c \<le> 90 \<and> l = c + 32)) w keyword)"
    by (rule contrapos_nn [OF joke_is_no_location
          is_location_query_substring [THEN conjunct2, THEN conjunct2, THEN conjunct1, THEN mp]])
qed

section \<open>The backend client\<close>

lemma call_maps_backend_total:
  "\<exists>r. call_maps_backend rt valves post query = Inr r"
  by (simp add: call_maps_backend_def split: sum.split pyexc.split)

lemma call_maps_backend_caught:
  "try_call_maps_backend rt valves post query = Inl e
     \<Longrightarrow> call_maps_backend rt valves post query = Inr PNone"
  by (simp add: call_maps_backend_def split: pyexc.split)

lemma call_maps_backend_no_reply:
  "post (maps_request valves query) = NoReply
     \<Longrightarrow> call_maps_backend rt valves post query = Inr PNone"
  by (simp add: call_maps_backend_def try_call_maps_backend_def)

lemma call_maps_backend_bad_status:
  "post (maps_request valves query) = Reply status parsed \<Longrightarrow> status \<noteq> 200
     \<Longrightarrow> call_maps_backend rt valves post query = Inr PNone"
  by (simp add: call_maps_backend_def try_call_maps_backend_def)

lemma call_maps_backend_no_json:
  "post (maps_request valves query) = Reply 200 None
     \<Longrightarrow> call_maps_backend rt valves post query = Inr PNone"
  by (simp add: call_maps_backend_def try_call_maps_backend_def)

text \<open>
  Claim C3. The backend client gives \<open>None\<close> when no reply comes (network failure), when
  the status is not 200, when the reply's text is not JSON, and whenever anything in its
  \<open>try\<close> block raises; for every query and every backend it returns a value, and raises
  nothing.
\<close>

theorem call_maps_backend_no_result:
  "(post (maps_request valves query) = NoReply
      \<longrightarrow> call_maps_backend rt valves post query = Inr PNone)
   \<and> (\<forall>status parsed. post (maps_request valves query) = Reply status parsed \<and> status \<noteq> 200
      \<longrightarrow> call_maps_backend rt valves post query = Inr PNone)
   \<and> (post (maps_request valves query) = Reply 200 None
      \<longrightarrow> call_maps_backend rt valves post query = Inr PNone)
   \<and> (\<forall>e. try_call_maps_backend rt valves post query = Inl e
      \<longrightarrow> call_maps_backend rt valves post query = Inr PNone)
   \<and> (\<exists>r. call_maps_backend rt valves post query = Inr r)"
  using call_maps_backend_total [of rt valves post query]
    call_maps_backend_caught [of rt valves post query]
    call_maps_backend_no_reply [of post valves query rt]
    call_maps_backend_bad_status [of post valves query _ _ rt]
    call_maps_backend_no_json [of post valves query rt]
  by blast

lemma try_not_a_dict:
  "try_call_maps_backend example_runtime (init_valves None)
     (backend_replying (Reply 200 (Some (PList [])))) (cps ''find pizza'') = Inl AttributeError"
  by (simp add: try_call_maps_backend_def backend_replying_def extract_places_def)

theorem call_maps_backend_no_result_witness:
  "call_maps_backend example_runtime (init_valves None)
     (backend_replying NoReply) (cps ''find pizza'') = Inr PNone
   \<and> call_maps_backend example_runtime (init_valves None)
     (backend_replying (Reply 500 None)) (cps ''find pizza'') = Inr PNone
   \<and> call_maps_backend example_runtime (init_valves None)
     (backend_replying (Reply 200 None)) (cps ''find pizza'') = Inr PNone
   \<and> try_call_maps_backend example_runtime (init_valves None)
     (backend_replying (Reply 200 (Some (PList [])))) (cps ''find pizza'') = Inl AttributeError
   \<and> call_maps_backend example_runtime (init_valves None)
     (backend_replying (Reply 200 (Some (PList [])))) (cps ''find pizza'') = Inr PNone"
  using try_not_a_dict
    call_maps_backend_no_result [of "backend_replying NoReply" "init_valves None"
      "cps ''find pizza''" example_runtime]
    call_maps_backend_no_result [of "backend_replying (Reply 500 None)" "init_valves None"
      "cps ''find pizza''" example_runtime]
    call_maps_backend_no_result [of "backend_replying (Reply 200 None)" "init_valves None"
      "cps ''find pizza''" example_runtime]
    call_maps_backend_no_result [of "backend_replying (Reply 200 (Some (PList [])))"
      "init_valves None" "cps ''find pizza''" example_runtime]
  by (simp add: backend_replying_def)

lemma repeat_money_ok:
  "(\<exists>p. repeat_str rt money_emoji n = Inr p) \<longleftrightarrow>
     - int (maxsize rt) - 1 \<le> n \<and> n \<le> int (maxsize rt)
     \<and> (n \<le> 1 \<or> nat n \<le> max_str_len rt)"
proof (cases "1 < n \<and> n \<le> int (maxsize rt)")
  case True
  then have "0 < nat n" and "nat n \<le> maxsize rt" by auto
  then have "\<not> maxsize rt div nat n < 1"
    by (simp add: div_greater_zero_iff)
  with True show ?thesis
    by (auto simp: repeat_str_def money_emoji_def)
next
  case False
  then show ?thesis
    by (auto simp: repeat_str_def money_emoji_def)
qed

lemma price_part_ok:
  "(\<exists>p. price_part rt d = Inr p) \<longleftrightarrow>
     (case get_truthy d (cps ''price_level'') of
        None \<Rightarrow> True
      | Some lvl \<Rightarrow>
          (case index_of lvl of
             None \<Rightarrow> False
           | Some n \<Rightarrow>
               - int (maxsize rt) - 1 \<le> n \<and> n \<le> int (maxsize rt)
               \<and> (n \<le> 1 \<or> nat n \<le> max_str_len rt)))"
proof (cases "get_truthy d (cps ''price_level'')")
  case None
  then show ?thesis by (simp add: price_part_def)
next
  case (Some lvl)
  show ?thesis
  proof (cases "index_of lvl")
    case None
    with Some show ?thesis by (simp add: price_part_def py_repeat_def)
  next
    case (Some n)
    have "(\<exists>p. price_part rt d = Inr p) \<longleftrightarrow> (\<exists>p. repeat_str rt money_emoji n = Inr p)"
      using \<open>get_truthy d (cps ''price_level'') = Some lvl\<close> Some
      by (auto simp: price_part_def py_repeat_def split: sum.splits)
    with \<open>get_truthy d (cps ''price_level'') = Some lvl\<close> Some show ?thesis
      by (simp add: repeat_money_ok)
  qed
qed

lemma status_part_ok:
  "(\<exists>s. status_part d = Inr s) \<longleftrightarrow>
     (case get_truthy d (cps ''opening_hours'') of
        None \<Rightarrow> True | Some (PDict h) \<Rightarrow> True | Some _ \<Rightarrow> False)"
  by (simp add: status_part_def split: option.split pyval.split)

lemma format_place_not_dict:
  "\<forall>d. place \<noteq> PDict d \<Longrightarrow> format_place rt place = Inl TypeError"
  by (cases place) (simp_all add: format_place_def)

lemma format_place_closed_form:
  "format_place rt (PDict d) =
     (case dict_get d (cps ''name'') of
        None \<Rightarrow> Inl KeyError
      | Some name \<Rightarrow>
          (case dict_get d (cps ''formatted_address'') of
             None \<Rightarrow> Inl KeyError
           | Some addr \<Rightarrow>
               (case price_part rt d of
                  Inl e \<Rightarrow> Inl e
                | Inr price \<Rightarrow>
                    (case status_part d of
                       Inl e \<Rightarrow> Inl e
                     | Inr status \<Rightarrow>
                         Inr (pin_emoji @ cps '' **'' @ py_str rt name @ cps ''**''
                            @ (case get_truthy d (cps ''rating'') of
                                 None \<Rightarrow> []
                               | Some r \<Rightarrow> cps '' ('' @ star_emoji @ cps '' '' @ py_str rt r @ cps ''/5)'')
                            @ nl3 @ pin_emoji @ cps '' '' @ py_str rt addr
                            @ price
                            @ (case get_truthy d (cps ''website'') of
                                 None \<Rightarrow> []
                               | Some w \<Rightarrow> nl3 @ globe_emoji @ cps '' Website: '' @ py_str rt w)
                            @ (case get_truthy d (cps ''formatted_phone_number'') of
                                 None \<Rightarrow> []
                               | Some ph \<Rightarrow> nl3 @ phone_emoji @ cps '' Phone: '' @ py_str rt ph)
                            @ status)))))"
  by (simp add: format_place_def Let_def split: option.split sum.split)

lemma format_place_ok:
  "well_formed_place rt place \<longleftrightarrow> (\<exists>block. format_place rt place = Inr block)"
proof (cases "\<exists>d. place = PDict d")
  case False
  then have "format_place rt place = Inl TypeError"
    by (intro format_place_not_dict) simp
  moreover from False have "\<not> well_formed_place rt place"
    by (cases place) (simp_all add: well_formed_place_def)
  ultimately show ?thesis by simp
next
  case True
  then obtain d where d: "place = PDict d" by blast
  have "(\<exists>block. format_place rt (PDict d) = Inr block) \<longleftrightarrow>
          dict_get d (cps ''name'') \<noteq> None \<and> dict_get d (cps ''formatted_address'') \<noteq> None
          \<and> (\<exists>p. price_part rt d = Inr p) \<and> (\<exists>s. status_part d = Inr s)"
    unfolding format_place_closed_form
    by (auto split: option.split sum.split)
  then show ?thesis
    unfolding d price_part_ok status_part_ok
    by (simp add: well_formed_place_def)
qed

lemma format_places_ok:
  "list_all (well_formed_place rt) ps \<Longrightarrow>
     \<exists>bs. format_places rt ps = Inr bs \<and> length bs = length ps
        \<and> (\<forall>i<length ps. format_place rt (ps ! i) = Inr (bs ! i))"
proof (induction ps)
  case Nil
  then show ?case by simp
next
  case (Cons p ps)
  then obtain b where b: "format_place rt p = Inr b"
    using format_place_ok [of rt p] by auto
  from Cons obtain bs where bs: "format_places rt ps = Inr bs" "length bs = length ps"
      "\<forall>i<length ps. format_place rt (ps ! i) = Inr (bs ! i)"
    by auto
  have "\<forall>i<length (p # ps). format_place rt ((p # ps) ! i) = Inr ((b # bs) ! i)"
    using b bs(3) by (auto simp: nth_Cons split: nat.split)
  with b bs(1,2) show ?case by simp
qed

lemma format_places_raises:
  "\<not> list_all (well_formed_place rt) ps \<Longrightarrow> \<exists>e. format_places rt ps = Inl e"
proof (induction ps)
  case Nil
  then show ?case by simp
next
  case (Cons p ps)
  show ?case
  proof (cases "format_place rt p")
    case (Inl e)
    then show ?thesis by simp
  next
    case (Inr b)
    then have "well_formed_place rt p" using format_place_ok [of rt p] by auto
    with Cons.prems have "\<not> list_all (well_formed_place rt) ps" by simp
    then obtain e where "format_places rt ps = Inl e" using Cons.IH by blast
    with Inr show ?thesis by simp
  qed
qed

lemma extract_places_blocks:
  assumes "truthy (get_or_none r (cps ''success''))"
    and "dict_get r (cps ''data'') = Some (PDict d)"
    and "dict_get d (cps ''places'') = Some (PList ps)"
    and "ps \<noteq> []"
    and "format_places rt (take 5 ps) = Inr blocks"
  shows "extract_places rt (PDict r) =
           Inr (PDict [(cps ''formatted_places'', PList (map PStr blocks)),
                       (cps ''map_url'', get_or_none d (cps ''map_url'')),
                       (cps ''directions_url'', get_or_none d (cps ''directions_url'')),
                       (cps ''center'', get_or_none d (cps ''center'')),
                       (cps ''zoom'', get_or_none d (cps ''zoom'')),
                       (cps ''raw_data'', PDict r)])"
  using assms by (simp add: extract_places_def)

lemma extract_places_raises:
  assumes "truthy (get_or_none r (cps ''success''))"
    and "dict_get r (cps ''data'') = Some (PDict d)"
    and "dict_get d (cps ''places'') = Some (PList ps)"
    and "ps \<noteq> []"
    and "format_places rt (take 5 ps) = Inl e"
  shows "extract_places rt (PDict r) = Inl e"
  using assms by (simp add: extract_places_def)

text \<open>
  Claim C5, as the code has it. For a 200 reply with a true \<open>success\<close> and a
  \<open>data.places\<close> list of more than five places (seven, for one): when each of the first
  five is a record the formatter accepts, the backend client returns exactly five blocks,
  the \<open>i\<close>-th block being the formatted \<open>i\<close>-th place of the list; when one of the
  first five is not, it returns \<open>None\<close>. The places behind the fifth have no part in it.
\<close>

theorem first_five_places_formatted:
  assumes "post (maps_request valves query) = Reply 200 (Some (PDict r))"
    and "truthy (get_or_none r (cps ''success''))"
    and "dict_get r (cps ''data'') = Some (PDict d)"
    and "dict_get d (cps ''places'') = Some (PList ps)"
    and "5 < length ps"
  shows "(list_all (well_formed_place rt) (take 5 ps) \<longrightarrow>
          (\<exists>blocks.
             call_maps_backend rt valves post query =
               Inr (PDict [(cps ''formatted_places'', PList (map PStr blocks)),
                           (cps ''map_url'', get_or_none d (cps ''map_url'')),
                           (cps ''directions_url'', get_or_none d (cps ''directions_url'')),
                           (cps ''center'', get_or_none d (cps ''center'')),
                           (cps ''zoom'', get_or_none d (cps ''zoom'')),
                           (cps ''raw_data'', PDict r)])
             \<and> length blocks = 5
             \<and> (\<forall>i<5. format_place rt (ps ! i) = Inr (blocks ! i))))
       \<and> (\<not> list_all (well_formed_place rt) (take 5 ps) \<longrightarrow>
            call_maps_backend rt valves post query = Inr PNone)"
proof (intro conjI impI)
  from assms(5) have len: "length (take 5 ps) = 5" and ne: "ps \<noteq> []" by auto
  have tr: "try_call_maps_backend rt valves post query = extract_places rt (PDict r)"
    using assms(1) by (simp add: try_call_maps_backend_def)
  {
    assume wf: "list_all (well_formed_place rt) (take 5 ps)"
    from format_places_ok [OF wf] len
    obtain blocks where blocks: "format_places rt (take 5 ps) = Inr blocks" "length blocks = 5"
        "\<forall>i<5. format_place rt (take 5 ps ! i) = Inr (blocks ! i)"
      by auto
    from blocks(3) have nth: "\<forall>i<5. format_place rt (ps ! i) = Inr (blocks ! i)" by simp
    have "call_maps_backend rt valves post query =
               Inr (PDict [(cps ''formatted_places'', PList (map PStr blocks)),
                           (cps ''map_url'', get_or_none d (cps ''map_url'')),
                           (cps ''directions_url'', get_or_none d (cps ''directions_url'')),
                           (cps ''center'', get_or_none d (cps ''center'')),
                           (cps ''zoom'', get_or_none d (cps ''zoom'')),
                           (cps ''raw_data'', PDict r)])"
      using tr extract_places_blocks [OF assms(2,3,4) ne blocks(1)]
      by (simp add: call_maps_backend_def)
    with blocks(2) nth
    show "\<exists>blocks.
             call_maps_backend rt valves post query =
               Inr (PDict [(cps ''formatted_places'', PList (map PStr blocks)),
                           (cps ''map_url'', get_or_none d (cps ''map_url'')),
                           (cps ''directions_url'', get_or_none d (cps ''directions_url'')),
                           (cps ''center'', get_or_none d (cps ''center'')),
                           (cps ''zoom'', get_or_none d (cps ''zoom'')),
                           (cps ''raw_data'', PDict r)])
             \<and> length blocks = 5
             \<and> (\<forall>i<5. format_place rt (ps ! i) = Inr (blocks ! i))"
      by blast
  }
  {
    assume "\<not> list_all (well_formed_place rt) (take 5 ps)"
    then obtain e where "format_places rt (take 5 ps) = Inl e"
      using format_places_raises by blast
    then have "try_call_maps_backend rt valves post query = Inl e"
      using tr extract_places_raises [OF assms(2,3,4) ne] by simp
    then show "call_maps_backend rt valves post query = Inr PNone"
      by (rule call_maps_backend_caught)
  }
qed

lemma nl3_not_Nil [simp]: "nl3 \<noteq> []"
  by (simp add: nl3_def)

lemma price_part_empty:
  "price_part rt d = Inr price \<Longrightarrow> (price = [] \<longleftrightarrow> get_truthy d (cps ''price_level'') = None)"
  by (auto simp: price_part_def split: option.splits sum.splits)

lemma status_part_empty:
  assumes "status_part d = Inr status"
  shows "status = [] \<longleftrightarrow>
        get_truthy d (cps ''opening_hours'') = None
        \<or> (\<exists>h. get_truthy d (cps ''opening_hours'') = Some (PDict h)
                \<and> get_or_none h (cps ''open_now'') = PNone)"
proof (cases "get_truthy d (cps ''opening_hours'')")
  case None
  with assms show ?thesis by (simp add: status_part_def)
next
  case (Some hours)
  with assms obtain h where h: "hours = PDict h"
    by (cases hours) (simp_all add: status_part_def)
  with assms Some show ?thesis
    by (auto simp: status_part_def get_or_none_def split: option.splits if_splits)
qed

text \<open>
  Claim C6, as the code has it. \<open>name\<close> and \<open>formatted_address\<close> are required: a record
  without one of them raises, and the block of any other record holds both. A block is
  produced exactly for the well-formed records, whatever optional fields are absent: those
  with both required fields, whose \<open>price_level\<close>, when present and true, is an integer
  the runtime can repeat the money sign by, and whose \<open>opening_hours\<close>, when present
  and true, is a dict. In the
  block, rating, website and phone each have their piece exactly when the field is present
  and true (not null, zero or empty); the price piece is there exactly when \<open>price_level\<close>
  is present and true; the status piece exactly when \<open>opening_hours\<close> is present and
  true and its \<open>open_now\<close> is present and not null.
\<close>

theorem format_place_fields:
  "(dict_get d (cps ''name'') = None \<or> dict_get d (cps ''formatted_address'') = None
      \<longrightarrow> format_place rt (PDict d) = Inl KeyError)
   \<and> (well_formed_place rt (PDict d) \<longleftrightarrow> (\<exists>block. format_place rt (PDict d) = Inr block))
   \<and> (\<forall>block. format_place rt (PDict d) = Inr block \<longrightarrow>
        (\<exists>name addr price status.
           dict_get d (cps ''name'') = Some name
         \<and> dict_get d (cps ''formatted_address'') = Some addr
         \<and> price_part rt d = Inr price
         \<and> status_part d = Inr status
         \<and> block =
             pin_emoji @ cps '' **'' @ py_str rt name @ cps ''**''
             @ (case get_truthy d (cps ''rating'') of
                  None \<Rightarrow> []
                | Some r \<Rightarrow> cps '' ('' @ star_emoji @ cps '' '' @ py_str rt r @ cps ''/5)'')
             @ nl3 @ pin_emoji @ cps '' '' @ py_str rt addr
             @ price
             @ (case get_truthy d (cps ''website'') of
                  None \<Rightarrow> []
                | Some w \<Rightarrow> nl3 @ globe_emoji @ cps '' Website: '' @ py_str rt w)
             @ (case get_truthy d (cps ''formatted_phone_number'') of
                  None \<Rightarrow> []
                | Some ph \<Rightarrow> nl3 @ phone_emoji @ cps '' Phone: '' @ py_str rt ph)
             @ status
         \<and> (price = [] \<longleftrightarrow> get_truthy d (cps ''price_level'') = None)
         \<and> (status = [] \<longleftrightarrow>
               get_truthy d (cps ''opening_hours'') = None
               \<or> (\<exists>h. get_truthy d (cps ''opening_hours'') = Some (PDict h)
                       \<and> get_or_none h (cps ''open_now'') = PNone))))"
proof (intro conjI allI impI)
  assume "dict_get d (cps ''name'') = None \<or> dict_get d (cps ''formatted_address'') = None"
  then show "format_place rt (PDict d) = Inl KeyError"
    unfolding format_place_closed_form by (auto split: option.split)
next
  show "well_formed_place rt (PDict d) \<longleftrightarrow> (\<exists>block. format_place rt (PDict d) = Inr block)"
    by (rule format_place_ok)
next
  fix block
  assume "format_place rt (PDict d) = Inr block"
  then obtain name addr price status where
      name: "dict_get d (cps ''name'') = Some name"
      and addr: "dict_get d (cps ''formatted_address'') = Some addr"
      and price: "price_part rt d = Inr price"
      and status: "status_part d = Inr status"
      and block: "block =
             pin_emoji @ cps '' **'' @ py_str rt name @ cps ''**''
             @ (case get_truthy d (cps ''rating'') of
                  None \<Rightarrow> []
                | Some r \<Rightarrow> cps '' ('' @ star_emoji @ cps '' '' @ py_str rt r @ cps ''/5)'')
             @ nl3 @ pin_emoji @ cps '' '' @ py_str rt addr
             @ price
             @ (case get_truthy d (cps ''website'') of
                  None \<Rightarrow> []
                | Some w \<Rightarrow> nl3 @ globe_emoji @ cps '' Website: '' @ py_str rt w)
             @ (case get_truthy d (cps ''formatted_phone_number'') of
                  None \<Rightarrow> []
                | Some ph \<Rightarrow> nl3 @ phone_emoji @ cps '' Phone: '' @ py_str rt ph)
             @ status"
    unfolding format_place_closed_form
    by (auto split: option.splits sum.splits)
  show "\<exists>name addr price status.
           dict_get d (cps ''name'') = Some name
         \<and> dict_get d (cps ''formatted_address'') = Some addr
         \<and> price_part rt d = Inr price
         \<and> status_part d = Inr status
         \<and> block =
             pin_emoji @ cps '' **'' @ py_str rt name @ cps ''**''
             @ (case get_truthy d (cps ''rating'') of
                  None \<Rightarrow> []
                | Some r \<Rightarrow> cps '' ('' @ star_emoji @ cps '' '' @ py_str rt r @ cps ''/5)'')
             @ nl3 @ pin_emoji @ cps '' '' @ py_str rt addr
             @ price
             @ (case get_truthy d (cps ''website'') of
                  None \<Rightarrow> []
                | Some w \<Rightarrow> nl3 @ globe_emoji @ cps '' Website: '' @ py_str rt w)
             @ (case get_truthy d (cps ''formatted_phone_number'') of
                  None \<Rightarrow> []
                | Some ph \<Rightarrow> nl3 @ phone_emoji @ cps '' Phone: '' @ py_str rt ph)
             @ status
         \<and> (price = [] \<longleftrightarrow> get_truthy d (cps ''price_level'') = None)
         \<and> (status = [] \<longleftrightarrow>
               get_truthy d (cps ''opening_hours'') = None
               \<or> (\<exists>h. get_truthy d (cps ''opening_hours'') = Some (PDict h)
                       \<and> get_or_none h (cps ''open_now'') = PNone))"
    apply (rule exI [of _ name], rule exI [of _ addr], rule exI [of _ price],
           rule exI [of _ status])
    apply (intro conjI)
          apply (rule name)
         apply (rule addr)
        apply (rule price)
       apply (rule status)
      apply (rule block)
     apply (rule price_part_empty [OF price])
    apply (rule status_part_empty [OF status])
    done
qed

lemma repeat_money_twice:
  "py_repeat example_runtime money_emoji (PInt 2) = Inr (money_emoji @ money_emoji)"
proof -
  have "repeat_str example_runtime money_emoji 2 = Inr (concat (replicate 2 money_emoji))"
    by (simp add: repeat_str_def example_runtime_def money_emoji_def)
  then show ?thesis
    by (simp add: py_repeat_def numeral_2_eq_2)
qed

lemma format_full_place:
  "format_place example_runtime full_place =
       Inr (pin_emoji @ cps '' **Warung Sate**'' @ cps '' ('' @ star_emoji @ cps '' 4.5/5)''
          @ nl3 @ pin_emoji @ cps '' Jl. Sudirman 1''
          @ nl3 @ money_emoji @ cps '' Price Level: '' @ money_emoji @ money_emoji
          @ nl3 @ globe_emoji @ cps '' Website: https://sate.example''
          @ nl3 @ phone_emoji @ cps '' Phone: +62 21 555''
          @ nl3 @ clock_emoji @ cps '' Status: '' @ green_emoji @ cps '' Open Now'')"
  by (simp add: full_place_def format_place_closed_form dict_get_def get_truthy_def
      price_part_def status_part_def repeat_money_twice)
     (simp add: cps_def)

lemma format_plain_place:
  "format_place rt (plain_place name addr) =
     Inr (pin_emoji @ cps '' **'' @ name @ cps ''**'' @ nl3 @ pin_emoji @ cps '' '' @ addr)"
  by (simp add: plain_place_def format_place_closed_form dict_get_def get_truthy_def
      price_part_def status_part_def)

lemma seven_places_well_formed:
  "list_all (well_formed_place example_runtime) (take 5 seven_places)"
  by (simp add: seven_places_def full_place_def plain_place_def well_formed_place_def
      dict_get_def get_truthy_def example_runtime_def)

lemma list_of_five: "length xs = 5 \<Longrightarrow> xs = [xs ! 0, xs ! 1, xs ! 2, xs ! 3, xs ! 4]"
  by (auto simp: eval_nat_numeral length_Suc_conv)

theorem first_five_places_formatted_witness:
  "length seven_places = 7
   \<and> list_all (well_formed_place example_runtime) (take 5 seven_places)
   \<and> call_maps_backend example_runtime (init_valves None)
        (backend_replying (Reply 200 (Some (PDict (places_reply seven_places)))))
        (cps ''find cafe'') =
        Inr (PDict
          [(cps ''formatted_places'', PList
             [PStr (pin_emoji @ cps '' **Warung Sate**'' @ cps '' ('' @ star_emoji
                    @ cps '' 4.5/5)''
                    @ nl3 @ pin_emoji @ cps '' Jl. Sudirman 1''
                    @ nl3 @ money_emoji @ cps '' Price Level: '' @ money_emoji @ money_emoji
                    @ nl3 @ globe_emoji @ cps '' Website: https://sate.example''
                    @ nl3 @ phone_emoji @ cps '' Phone: +62 21 555''
                    @ nl3 @ clock_emoji @ cps '' Status: '' @ green_emoji @ cps '' Open Now''),
              PStr (pin_emoji @ cps '' **'' @ cps ''Cafe 2'' @ cps ''**''
                    @ nl3 @ pin_emoji @ cps '' '' @ cps ''2 Main St''),
              PStr (pin_emoji @ cps '' **'' @ cps ''Cafe 3'' @ cps ''**''
                    @ nl3 @ pin_emoji @ cps '' '' @ cps ''3 Main St''),
              PStr (pin_emoji @ cps '' **'' @ cps ''Cafe 4'' @ cps ''**''
                    @ nl3 @ pin_emoji @ cps '' '' @ cps ''4 Main St''),
              PStr (pin_emoji @ cps '' **'' @ cps ''Cafe 5'' @ cps ''**''
                    @ nl3 @ pin_emoji @ cps '' '' @ cps ''5 Main St'')]),
           (cps ''map_url'', PStr (cps ''https://maps.example/view'')),
           (cps ''directions_url'', PStr (cps ''https://maps.example/dir'')),
           (cps ''center'', PNone),
           (cps ''zoom'', PNone),
           (cps ''raw_data'', PDict (places_reply seven_places))])"
proof -
  have len: "5 < length seven_places" by (simp add: seven_places_def)
  have reply: "backend_replying (Reply 200 (Some (PDict (places_reply seven_places))))
                 (maps_request (init_valves None) (cps ''find cafe''))
               = Reply 200 (Some (PDict (places_reply seven_places)))"
    by (simp add: backend_replying_def)
  have ok: "truthy (get_or_none (places_reply seven_places) (cps ''success''))"
    by (simp add: places_reply_def get_or_none_def dict_get_def)
  have data: "dict_get (places_reply seven_places) (cps ''data'') =
      Some (PDict [(cps ''places'', PList seven_places),
                   (cps ''map_url'', PStr (cps ''https://maps.example/view'')),
                   (cps ''directions_url'', PStr (cps ''https://maps.example/dir''))])"
    by (simp add: places_reply_def dict_get_def)
  have places: "dict_get [(cps ''places'', PList seven_places),
                   (cps ''map_url'', PStr (cps ''https://maps.example/view'')),
                   (cps ''directions_url'', PStr (cps ''https://maps.example/dir''))]
                 (cps ''places'') = Some (PList seven_places)"
    by (simp add: dict_get_def)
  from first_five_places_formatted [where rt = example_runtime
        and post = "backend_replying (Reply 200 (Some (PDict (places_reply seven_places))))"
        and valves = "init_valves None" and query = "cps ''find cafe''",
        OF reply ok data places len, THEN conjunct1, THEN mp, OF seven_places_well_formed]
  obtain blocks where
      call: "call_maps_backend example_runtime (init_valves None)
        (backend_replying (Reply 200 (Some (PDict (places_reply seven_places)))))
        (cps ''find cafe'') =
        Inr (PDict [(cps ''formatted_places'', PList (map PStr blocks)),
           (cps ''map_url'', get_or_none [(cps ''places'', PList seven_places),
                   (cps ''map_url'', PStr (cps ''https://maps.example/view'')),
                   (cps ''directions_url'', PStr (cps ''https://maps.example/dir''))]
                 (cps ''map_url'')),
           (cps ''directions_url'', get_or_none [(cps ''places'', PList seven_places),
                   (cps ''map_url'', PStr (cps ''https://maps.example/view'')),
                   (cps ''directions_url'', PStr (cps ''https://maps.example/dir''))]
                 (cps ''directions_url'')),
           (cps ''center'', get_or_none [(cps ''places'', PList seven_places),
                   (cps ''map_url'', PStr (cps ''https://maps.example/view'')),
                   (cps ''directions_url'', PStr (cps ''https://maps.example/dir''))]
                 (cps ''center'')),
           (cps ''zoom'', get_or_none [(cps ''places'', PList seven_places),
                   (cps ''map_url'', PStr (cps ''https://maps.example/view'')),
                   (cps ''directions_url'', PStr (cps ''https://maps.example/dir''))]
                 (cps ''zoom'')),
           (cps ''raw_data'', PDict (places_reply seven_places))])"
      and five: "length blocks = 5"
      and nth: "\<forall>i<5. format_place example_runtime (seven_places ! i) = Inr (blocks ! i)"
    by blast
  have b0: "blocks ! 0 = pin_emoji @ cps '' **Warung Sate**'' @ cps '' ('' @ star_emoji
                    @ cps '' 4.5/5)''
                    @ nl3 @ pin_emoji @ cps '' Jl. Sudirman 1''
                    @ nl3 @ money_emoji @ cps '' Price Level: '' @ money_emoji @ money_emoji
                    @ nl3 @ globe_emoji @ cps '' Website: https://sate.example''
                    @ nl3 @ phone_emoji @ cps '' Phone: +62 21 555''
                    @ nl3 @ clock_emoji @ cps '' Status: '' @ green_emoji @ cps '' Open Now''"
    using nth [rule_format, of 0] by (simp add: seven_places_def format_full_place)
  have b1: "blocks ! 1 = pin_emoji @ cps '' **'' @ cps ''Cafe 2'' @ cps ''**''
                    @ nl3 @ pin_emoji @ cps '' '' @ cps ''2 Main St''"
    using nth [rule_format, of 1] by (simp add: seven_places_def format_plain_place)
  have b2: "blocks ! 2 = pin_emoji @ cps '' **'' @ cps ''Cafe 3'' @ cps ''**''
                    @ nl3 @ pin_emoji @ cps '' '' @ cps ''3 Main St''"
    using nth [rule_format, of 2] by (simp add: seven_places_def format_plain_place)
  have b3: "blocks ! 3 = pin_emoji @ cps '' **'' @ cps ''Cafe 4'' @ cps ''**''
                    @ nl3 @ pin_emoji @ cps '' '' @ cps ''4 Main St''"
    using nth [rule_format, of 3] by (simp add: seven_places_def format_plain_place)
  have b4: "blocks ! 4 = pin_emoji @ cps '' **'' @ cps ''Cafe 5'' @ cps ''**''
                    @ nl3 @ pin_emoji @ cps '' '' @ cps ''5 Main St''"
    using nth [rule_format, of 4] by (simp add: seven_places_def format_plain_place)
  have blocks: "blocks = [blocks ! 0, blocks ! 1, blocks ! 2, blocks ! 3, blocks ! 4]"
    by (rule list_of_five [OF five])
  have "map PStr blocks = [PStr (blocks ! 0), PStr (blocks ! 1), PStr (blocks ! 2),
                           PStr (blocks ! 3), PStr (blocks ! 4)]"
    by (subst blocks) simp
  then show ?thesis
    unfolding call b0 b1 b2 b3 b4
    by (simp add: seven_places_well_formed get_or_none_def dict_get_def)
       (simp add: seven_places_def)
qed

text \<open>
  Claim C5, as the specification has it, gives five blocks for any seven places. When the
  first of the seven has no \<open>name\<close>, the backend client returns \<open>None\<close>.
\<close>

theorem nameless_among_seven_places:
  "length (PDict [(cps ''formatted_address'', PStr (cps ''1 Main St''))] # tl seven_places) = 7
   \<and> call_maps_backend example_runtime (init_valves None)
        (backend_replying (Reply 200 (Some (PDict (places_reply
           (PDict [(cps ''formatted_address'', PStr (cps ''1 Main St''))] # tl seven_places))))))
        (cps ''find cafe'') = Inr PNone"
  by (simp add: seven_places_def call_maps_backend_def try_call_maps_backend_def
      backend_replying_def extract_places_def places_reply_def get_or_none_def dict_get_def
      format_place_closed_form)

lemma format_overpriced_place:
  "format_place example_runtime
     (PDict [(cps ''name'', PStr (cps ''Cafe 2'')),
             (cps ''formatted_address'', PStr (cps ''2 Main St'')),
             (cps ''price_level'', PInt 9223372036854775808)]) = Inl OverflowError"
  by (simp add: format_place_closed_form dict_get_def get_truthy_def price_part_def
      py_repeat_def repeat_str_def example_runtime_def)

theorem format_place_fields_witness:
  "well_formed_place example_runtime full_place
   \<and> format_place example_runtime full_place =
       Inr (pin_emoji @ cps '' **Warung Sate**'' @ cps '' ('' @ star_emoji @ cps '' 4.5/5)''
          @ nl3 @ pin_emoji @ cps '' Jl. Sudirman 1''
          @ nl3 @ money_emoji @ cps '' Price Level: '' @ money_emoji @ money_emoji
          @ nl3 @ globe_emoji @ cps '' Website: https://sate.example''
          @ nl3 @ phone_emoji @ cps '' Phone: +62 21 555''
          @ nl3 @ clock_emoji @ cps '' Status: '' @ green_emoji @ cps '' Open Now'')
   \<and> well_formed_place example_runtime (plain_place (cps ''Cafe 2'') (cps ''2 Main St''))
   \<and> format_place example_runtime (PDict [(cps ''name'', PStr (cps ''Cafe 2''))]) = Inl KeyError
   \<and> \<not> well_formed_place example_runtime
         (PDict [(cps ''name'', PStr (cps ''Cafe 2'')),
                 (cps ''formatted_address'', PStr (cps ''2 Main St'')),
                 (cps ''price_level'', PInt 9223372036854775808)])"
proof (intro conjI)
  show "format_place example_runtime full_place =
       Inr (pin_emoji @ cps '' **Warung Sate**'' @ cps '' ('' @ star_emoji @ cps '' 4.5/5)''
          @ nl3 @ pin_emoji @ cps '' Jl. Sudirman 1''
          @ nl3 @ money_emoji @ cps '' Price Level: '' @ money_emoji @ money_emoji
          @ nl3 @ globe_emoji @ cps '' Website: https://sate.example''
          @ nl3 @ phone_emoji @ cps '' Phone: +62 21 555''
          @ nl3 @ clock_emoji @ cps '' Status: '' @ green_emoji @ cps '' Open Now'')"
    by (rule format_full_place)
  show "well_formed_place example_runtime full_place"
    unfolding full_place_def
    by (rule format_place_fields [THEN conjunct2, THEN conjunct1, THEN iffD2])
       (rule exI, rule format_full_place [unfolded full_place_def])
  show "well_formed_place example_runtime (plain_place (cps ''Cafe 2'') (cps ''2 Main St''))"
    unfolding plain_place_def
    by (rule format_place_fields [THEN conjunct2, THEN conjunct1, THEN iffD2])
       (rule exI, rule format_plain_place [unfolded plain_place_def])
  show "format_place example_runtime (PDict [(cps ''name'', PStr (cps ''Cafe 2''))]) = Inl KeyError"
    by (rule format_place_fields [THEN conjunct1, THEN mp]) (simp add: dict_get_def)
  show "\<not> well_formed_place example_runtime
         (PDict [(cps ''name'', PStr (cps ''Cafe 2'')),
                 (cps ''formatted_address'', PStr (cps ''2 Main St'')),
                 (cps ''price_level'', PInt 9223372036854775808)])"
    using format_place_fields [THEN conjunct2, THEN conjunct1, of example_runtime
        "[(cps ''name'', PStr (cps ''Cafe 2'')),
          (cps ''formatted_address'', PStr (cps ''2 Main St'')),
          (cps ''price_level'', PInt 9223372036854775808)]"]
    by (simp add: format_overpriced_place)
qed

text \<open>
  Claim C6, as the specification has it, promises a block when fields are absent and a field
  in the block whenever it is present. A record without \<open>name\<close> gives no block, and the
  backend client then returns \<open>None\<close> for the whole reply; a rating of \<open>0\<close>, though
  present, is left out of the block.
\<close>

theorem nameless_place_gives_no_block:
  "format_place example_runtime (PDict [(cps ''formatted_address'', PStr (cps ''1 Main St''))])
     = Inl KeyError
   \<and> call_maps_backend example_runtime (init_valves None)
       (backend_replying (Reply 200 (Some (PDict (places_reply
          [PDict [(cps ''formatted_address'', PStr (cps ''1 Main St''))]])))))
       (cps ''find cafe'') = Inr PNone
   \<and> format_place example_runtime
       (PDict [(cps ''name'', PStr (cps ''Cafe'')), (cps ''rating'', PInt 0),
               (cps ''formatted_address'', PStr (cps ''1 Main St''))])
     = Inr (pin_emoji @ cps '' **Cafe**'' @ nl3 @ pin_emoji @ cps '' 1 Main St'')"
  by (simp add: format_place_closed_form dict_get_def get_truthy_def price_part_def
      status_part_def call_maps_backend_def try_call_maps_backend_def backend_replying_def
      extract_places_def places_reply_def get_or_none_def)
     (simp add: cps_def)

section \<open>The pre-call hook\<close>

lemma check_turn_limit_no_user: "check_turn_limit valves body None = Inr ()"
  by (simp add: check_turn_limit_def user_is_checked_def)

lemma py_len_error: "py_len v = Inl e \<Longrightarrow> e = TypeError"
  by (cases v) auto

lemma py_last_error: "py_last v = Inl e \<Longrightarrow> e = IndexError \<or> e = KeyError \<or> e = TypeError"
  by (cases v) (auto split: if_splits)

lemma py_get_error: "py_get v k dflt = Inl e \<Longrightarrow> e = AttributeError"
  by (cases v) auto

lemma py_join_error: "py_join sep v = Inl e \<Longrightarrow> e = TypeError"
  by (cases v) (auto split: option.splits)

lemma create_maps_context_error:
  "create_maps_context rt maps_data query = Inl e \<Longrightarrow> e = AttributeError \<or> e = TypeError"
  by (auto simp: create_maps_context_def split: sum.splits if_splits
      dest: py_get_error py_join_error)

lemma inject_context_error:
  "inject_context rt body messages maps_result query = Inl e
     \<Longrightarrow> e = AttributeError \<or> e = TypeError"
  by (auto simp: inject_context_def split: sum.splits pyval.splits
      dest: create_maps_context_error)

lemma call_maps_backend_never_raises: "call_maps_backend rt valves post query \<noteq> Inl e"
  by (simp add: call_maps_backend_def split: sum.split pyexc.split)

text \<open>The part of the hook behind the turn limit.\<close>

lemma inlet_guard_passed:
  "check_turn_limit valves body user = Inr () \<Longrightarrow>
   inlet rt valves post body user =
     (if \<not> enable_maps_integration valves then (Inr body, [])
      else if maps_disabled_for_user user then (Inr body, [])
      else
        (case py_len (get_messages body) of
           Inl e \<Rightarrow> (Inl e, [])
         | Inr n \<Rightarrow>
             if \<not> truthy (get_messages body) then (Inr body, [])
             else
               (case py_last (get_messages body) of
                  Inl e \<Rightarrow> (Inl e, [])
                | Inr latest_message \<Rightarrow>
               (case py_get latest_message (cps ''role'') PNone of
                  Inl e \<Rightarrow> (Inl e, [])
                | Inr role \<Rightarrow>
                    if role \<noteq> PStr (cps ''user'') then (Inr body, [])
                    else
               (case py_get latest_message (cps ''content'') (PStr []) of
                  Inl e \<Rightarrow> (Inl e, [])
                | Inr (PStr user_query) \<Rightarrow>
                    if is_location_query rt user_query then
                      (case call_maps_backend rt valves post user_query of
                         Inl e \<Rightarrow> (Inl e, [maps_request valves user_query])
                       | Inr maps_result \<Rightarrow>
                           if truthy maps_result then
                             (inject_context rt body (get_messages body) maps_result user_query,
                              [maps_request valves user_query])
                           else (Inr body, [maps_request valves user_query]))
                    else (Inr body, [])
                | Inr _ \<Rightarrow> (Inl AttributeError, []))))))"
  by (simp add: inlet_def Let_def)

lemma inlet_rest_no_exception:
  assumes "check_turn_limit valves body user = Inr ()"
  shows "fst (inlet rt valves post body user) \<noteq> Inl (Exception msg)"
  unfolding inlet_guard_passed [OF assms]
  by (auto split: sum.splits if_splits pyval.splits
      dest: py_len_error py_last_error py_get_error inject_context_error
      simp: call_maps_backend_never_raises)

text \<open>
  Claim C10. Without a user context the turn limit is not checked: whatever the body holds,
  the guard passes, and the hook raises no \<open>Exception\<close> with any message, so never the
  one of the turn limit.
\<close>

theorem no_user_no_turn_limit:
  "check_turn_limit valves body None = Inr ()
   \<and> (\<forall>msg. fst (inlet rt valves post body None) \<noteq> Inl (Exception msg))"
  using check_turn_limit_no_user [of valves body]
    inlet_rest_no_exception [of valves body None rt post]
  by simp

lemma user_is_checked_iff:
  "user_is_checked user \<longleftrightarrow>
     (\<exists>u. user = Some u \<and> u \<noteq> []
        \<and> (dict_get u (cps ''role'') = None
           \<or> dict_get u (cps ''role'') = Some (PStr (cps ''user''))
           \<or> dict_get u (cps ''role'') = Some (PStr (cps ''admin''))))"
  by (cases user) (auto simp: user_is_checked_def split: option.splits)

lemma check_turn_limit_exceeded:
  assumes "user_is_checked user"
    and "py_len (get_messages body) = Inr n"
    and "effective_max_turns valves user < int n"
  shows "check_turn_limit valves body user =
           Inl (Exception (turn_limit_message (effective_max_turns valves user)))"
  using assms by (simp add: check_turn_limit_def Let_def)

lemma check_turn_limit_skipped:
  "\<not> user_is_checked user \<Longrightarrow> check_turn_limit valves body user = Inr ()"
  by (simp add: check_turn_limit_def)

lemma user_max_turns_cases:
  "user_max_turns user =
     (case attr_max_turns (valves_of_user user) of None \<Rightarrow> 4 | Some mt \<Rightarrow> mt)"
  by (cases "valves_of_user user") (simp_all add: user_max_turns_def)

text \<open>
  Claim C1, as the code has it. Let the number of messages be above the smaller of the
  user's and the global limit (4 when the user's valves have no \<open>max_turns\<close>, 8 for the
  valves as built). When the user context is present and not empty and its role is
  \<open>user\<close> or \<open>admin\<close> (\<open>admin\<close> when it has none), the hook raises an exception whose
  message ends with that limit; it does so whatever the integration flags are, and has sent
  no request. In every other case (no user context, an empty one, another role) the check
  is not run: the guard passes and the hook raises no such exception.
\<close>

theorem turn_limit_aborts:
  assumes "py_len (get_messages body) = Inr n"
    and "min (user_max_turns user) (max_turns valves) < int n"
  shows "((\<exists>u. user = Some u \<and> u \<noteq> []
             \<and> (dict_get u (cps ''role'') = None
                \<or> dict_get u (cps ''role'') = Some (PStr (cps ''user''))
                \<or> dict_get u (cps ''role'') = Some (PStr (cps ''admin''))))
          \<longrightarrow> inlet rt valves post body user =
                (Inl (Exception (cps ''Conversation turn limit exceeded. Max turns: ''
                        @ show_int (min (user_max_turns user) (max_turns valves)))), []))
       \<and> (\<not> (\<exists>u. user = Some u \<and> u \<noteq> []
             \<and> (dict_get u (cps ''role'') = None
                \<or> dict_get u (cps ''role'') = Some (PStr (cps ''user''))
                \<or> dict_get u (cps ''role'') = Some (PStr (cps ''admin''))))
          \<longrightarrow> check_turn_limit valves body user = Inr ()
              \<and> (\<forall>msg. fst (inlet rt valves post body user) \<noteq> Inl (Exception msg)))
       \<and> user_max_turns user =
            (case attr_max_turns (valves_of_user user) of None \<Rightarrow> 4 | Some mt \<Rightarrow> mt)
       \<and> max_turns (init_valves env_base_url) = 8"
proof (intro conjI impI)
  assume "\<exists>u. user = Some u \<and> u \<noteq> []
             \<and> (dict_get u (cps ''role'') = None
                \<or> dict_get u (cps ''role'') = Some (PStr (cps ''user''))
                \<or> dict_get u (cps ''role'') = Some (PStr (cps ''admin'')))"
  then have "user_is_checked user" by (simp add: user_is_checked_iff)
  moreover from assms(2) have "effective_max_turns valves user < int n"
    by (simp add: effective_max_turns_def)
  ultimately have "check_turn_limit valves body user =
           Inl (Exception (turn_limit_message (effective_max_turns valves user)))"
    using assms(1) by (intro check_turn_limit_exceeded)
  then show "inlet rt valves post body user =
                (Inl (Exception (cps ''Conversation turn limit exceeded. Max turns: ''
                        @ show_int (min (user_max_turns user) (max_turns valves)))), [])"
    by (simp add: inlet_def turn_limit_message_def effective_max_turns_def)
next
  assume "\<not> (\<exists>u. user = Some u \<and> u \<noteq> []
             \<and> (dict_get u (cps ''role'') = None
                \<or> dict_get u (cps ''role'') = Some (PStr (cps ''user''))
                \<or> dict_get u (cps ''role'') = Some (PStr (cps ''admin''))))"
  then have "\<not> user_is_checked user" by (simp add: user_is_checked_iff)
  then show guard: "check_turn_limit valves body user = Inr ()"
    by (rule check_turn_limit_skipped)
  show "\<forall>msg. fst (inlet rt valves post body user) \<noteq> Inl (Exception msg)"
    using inlet_rest_no_exception [OF guard] by blast
next
  show "user_max_turns user =
            (case attr_max_turns (valves_of_user user) of None \<Rightarrow> 4 | Some mt \<Rightarrow> mt)"
    by (rule user_max_turns_cases)
  show "max_turns (init_valves env_base_url) = 8"
    by (simp add: init_valves_def)
qed

lemma nine_messages_length: "length nine_messages = 9"
  by (simp add: nine_messages_def)

lemma nine_messages_last: "last nine_messages = user_message (cps ''Tell me a joke'')"
  by (simp add: nine_messages_def)

lemma get_messages_chat_body: "get_messages (chat_body ms) = PList ms"
  by (simp add: get_messages_def chat_body_def dict_get_def)

lemma show_int_4: "show_int 4 = cps ''4''"
  by (simp add: show_int_def digits.simps cps_def)

lemma show_int_2: "show_int 2 = cps ''2''"
  by (simp add: show_int_def digits.simps cps_def)

lemma nine_messages_len: "py_len (get_messages (chat_body nine_messages)) = Inr 9"
  by (simp add: get_messages_chat_body nine_messages_length)

lemma default_user_limit:
  "dict_get u (cps ''valves'') = None \<Longrightarrow> user_max_turns (Some u) = 4"
  by (simp add: user_max_turns_def valves_of_user_def get_or_none_def)

lemma joke_body_passes:
  assumes "check_turn_limit valves (chat_body nine_messages) user = Inr ()"
    and "\<not> maps_disabled_for_user user"
  shows "inlet example_runtime valves post (chat_body nine_messages) user
           = (Inr (chat_body nine_messages), [])"
  using assms(2)
  by (simp add: inlet_guard_passed [OF assms(1)] get_messages_chat_body
      nine_messages_length nine_messages_last user_message_def dict_get_def
      joke_is_no_location)

lemma limit_text_4:
  "cps ''Conversation turn limit exceeded. Max turns: '' @ cps ''4''
     = cps ''Conversation turn limit exceeded. Max turns: 4''"
  by (simp add: cps_def)

lemma limit_text_2:
  "cps ''Conversation turn limit exceeded. Max turns: '' @ cps ''2''
     = cps ''Conversation turn limit exceeded. Max turns: 2''"
  by (simp add: cps_def)

theorem turn_limit_aborts_witness:
  "inlet example_runtime ((init_valves None)\<lparr>enable_maps_integration := False\<rparr>)
       (backend_replying NoReply) (chat_body nine_messages)
       (Some [(cps ''role'', PStr (cps ''user''))])
     = (Inl (Exception (cps ''Conversation turn limit exceeded. Max turns: 4'')), [])
   \<and> inlet example_runtime (init_valves None) (backend_replying NoReply)
       (chat_body nine_messages) (Some [(cps ''id'', PStr (cps ''u1''))])
     = (Inl (Exception (cps ''Conversation turn limit exceeded. Max turns: 4'')), [])
   \<and> inlet example_runtime (init_valves None) (backend_replying NoReply)
       (chat_body nine_messages)
       (Some [(cps ''role'', PStr (cps ''admin'')), (cps ''valves'', PObj (Some 2) None)])
     = (Inl (Exception (cps ''Conversation turn limit exceeded. Max turns: 2'')), [])
   \<and> inlet example_runtime (init_valves None) (backend_replying NoReply)
       (chat_body nine_messages) (Some [(cps ''role'', PStr (cps ''pending''))])
     = (Inr (chat_body nine_messages), [])
   \<and> inlet example_runtime (init_valves None) (backend_replying NoReply)
       (chat_body nine_messages) (Some [])
     = (Inr (chat_body nine_messages), [])"
proof (intro conjI)
  have four_a: "min (user_max_turns (Some [(cps ''role'', PStr (cps ''user''))]))
                (max_turns ((init_valves None)\<lparr>enable_maps_integration := False\<rparr>)) = 4"
    by (simp add: default_user_limit dict_get_def init_valves_def)
  have lt_a: "min (user_max_turns (Some [(cps ''role'', PStr (cps ''user''))]))
                (max_turns ((init_valves None)\<lparr>enable_maps_integration := False\<rparr>)) < int 9"
    unfolding four_a by simp
  have hyp_a: "\<exists>u. Some [(cps ''role'', PStr (cps ''user''))] = Some u \<and> u \<noteq> []
             \<and> (dict_get u (cps ''role'') = None
                \<or> dict_get u (cps ''role'') = Some (PStr (cps ''user''))
                \<or> dict_get u (cps ''role'') = Some (PStr (cps ''admin'')))"
    by (simp add: dict_get_def)
  show "inlet example_runtime ((init_valves None)\<lparr>enable_maps_integration := False\<rparr>)
       (backend_replying NoReply) (chat_body nine_messages)
       (Some [(cps ''role'', PStr (cps ''user''))])
     = (Inl (Exception (cps ''Conversation turn limit exceeded. Max turns: 4'')), [])"
    using turn_limit_aborts [where rt = example_runtime and post = "backend_replying NoReply",
        OF nine_messages_len lt_a, THEN conjunct1, THEN mp, OF hyp_a]
    by (simp only: four_a show_int_4 limit_text_4)
  have four_b: "min (user_max_turns (Some [(cps ''id'', PStr (cps ''u1''))]))
                (max_turns (init_valves None)) = 4"
    by (simp add: default_user_limit dict_get_def init_valves_def)
  have lt_b: "min (user_max_turns (Some [(cps ''id'', PStr (cps ''u1''))]))
                (max_turns (init_valves None)) < int 9"
    unfolding four_b by simp
  have hyp_b: "\<exists>u. Some [(cps ''id'', PStr (cps ''u1''))] = Some u \<and> u \<noteq> []
             \<and> (dict_get u (cps ''role'') = None
                \<or> dict_get u (cps ''role'') = Some (PStr (cps ''user''))
                \<or> dict_get u (cps ''role'') = Some (PStr (cps ''admin'')))"
    by (simp add: dict_get_def)
  show "inlet example_runtime (init_valves None) (backend_replying NoReply)
       (chat_body nine_messages) (Some [(cps ''id'', PStr (cps ''u1''))])
     = (Inl (Exception (cps ''Conversation turn limit exceeded. Max turns: 4'')), [])"
    using turn_limit_aborts [where rt = example_runtime and post = "backend_replying NoReply",
        OF nine_messages_len lt_b, THEN conjunct1, THEN mp, OF hyp_b]
    by (simp only: four_b show_int_4 limit_text_4)
  have two: "min (user_max_turns
                (Some [(cps ''role'', PStr (cps ''admin'')), (cps ''valves'', PObj (Some 2) None)]))
                (max_turns (init_valves None)) = 2"
    by (simp add: user_max_turns_def valves_of_user_def get_or_none_def dict_get_def
        init_valves_def)
  have lt_c: "min (user_max_turns
                (Some [(cps ''role'', PStr (cps ''admin'')), (cps ''valves'', PObj (Some 2) None)]))
                (max_turns (init_valves None)) < int 9"
    unfolding two by simp
  have hyp_c: "\<exists>u. Some [(cps ''role'', PStr (cps ''admin'')),
                         (cps ''valves'', PObj (Some 2) None)] = Some u \<and> u \<noteq> []
             \<and> (dict_get u (cps ''role'') = None
                \<or> dict_get u (cps ''role'') = Some (PStr (cps ''user''))
                \<or> dict_get u (cps ''role'') = Some (PStr (cps ''admin'')))"
    by (simp add: dict_get_def)
  show "inlet example_runtime (init_valves None) (backend_replying NoReply)
       (chat_body nine_messages)
       (Some [(cps ''role'', PStr (cps ''admin'')), (cps ''valves'', PObj (Some 2) None)])
     = (Inl (Exception (cps ''Conversation turn limit exceeded. Max turns: 2'')), [])"
    using turn_limit_aborts [where rt = example_runtime and post = "backend_replying NoReply",
        OF nine_messages_len lt_c, THEN conjunct1, THEN mp, OF hyp_c]
    by (simp only: two show_int_2 limit_text_2)
  have lt_d: "min (user_max_turns (Some [(cps ''role'', PStr (cps ''pending''))]))
                (max_turns (init_valves None)) < int 9"
    by (simp add: default_user_limit dict_get_def init_valves_def)
  have hyp_d: "\<not> (\<exists>u. Some [(cps ''role'', PStr (cps ''pending''))] = Some u \<and> u \<noteq> []
             \<and> (dict_get u (cps ''role'') = None
                \<or> dict_get u (cps ''role'') = Some (PStr (cps ''user''))
                \<or> dict_get u (cps ''role'') = Some (PStr (cps ''admin''))))"
    by (simp add: dict_get_def)
  have "check_turn_limit (init_valves None) (chat_body nine_messages)
          (Some [(cps ''role'', PStr (cps ''pending''))]) = Inr ()"
    by (rule turn_limit_aborts [where rt = example_runtime and post = "backend_replying NoReply",
        OF nine_messages_len lt_d, THEN conjunct2, THEN conjunct1, THEN mp, OF hyp_d,
        THEN conjunct1])
  then show "inlet example_runtime (init_valves None) (backend_replying NoReply)
       (chat_body nine_messages) (Some [(cps ''role'', PStr (cps ''pending''))])
     = (Inr (chat_body nine_messages), [])"
    by (rule joke_body_passes)
       (simp add: maps_disabled_for_user_def valves_of_user_def get_or_none_def dict_get_def)
  have lt_e: "min (user_max_turns (Some [])) (max_turns (init_valves None)) < int 9"
    by (simp add: user_max_turns_def valves_of_user_def init_valves_def)
  have hyp_e: "\<not> (\<exists>u. Some [] = Some u \<and> u \<noteq> []
             \<and> (dict_get u (cps ''role'') = None
                \<or> dict_get u (cps ''role'') = Some (PStr (cps ''user''))
                \<or> dict_get u (cps ''role'') = Some (PStr (cps ''admin''))))"
    by simp
  have "check_turn_limit (init_valves None) (chat_body nine_messages) (Some []) = Inr ()"
    by (rule turn_limit_aborts [where rt = example_runtime and post = "backend_replying NoReply",
        OF nine_messages_len lt_e, THEN conjunct2, THEN conjunct1, THEN mp, OF hyp_e,
        THEN conjunct1])
  then show "inlet example_runtime (init_valves None) (backend_replying NoReply)
       (chat_body nine_messages) (Some [])
     = (Inr (chat_body nine_messages), [])"
    by (rule joke_body_passes)
       (simp add: maps_disabled_for_user_def valves_of_user_def)
qed

lemma joke_body_unchanged:
  "inlet example_runtime (init_valves None) post (chat_body nine_messages) None
     = (Inr (chat_body nine_messages), [])"
  by (simp add: inlet_guard_passed check_turn_limit_no_user init_valves_def
      maps_disabled_for_user_def valves_of_user_def get_messages_chat_body
      nine_messages_length nine_messages_last user_message_def dict_get_def
      joke_is_no_location)

text \<open>
  Claim C1, as the specification has it, lets the check run for every conversation. A body
  of nine messages, with the limits at 4 and 8 and no user context, is returned as it is.
\<close>

theorem absent_user_exceeds_limit:
  "py_len (get_messages (chat_body nine_messages)) = Inr 9
   \<and> effective_max_turns (init_valves None) None = 4
   \<and> inlet example_runtime (init_valves None) (backend_replying NoReply)
        (chat_body nine_messages) None
      = (Inr (chat_body nine_messages), [])"
proof (intro conjI)
  show "py_len (get_messages (chat_body nine_messages)) = Inr 9"
    by (simp add: get_messages_chat_body nine_messages_length)
  show "effective_max_turns (init_valves None) None = 4"
    by (simp add: effective_max_turns_def user_max_turns_def valves_of_user_def init_valves_def)
  show "inlet example_runtime (init_valves None) (backend_replying NoReply)
        (chat_body nine_messages) None
      = (Inr (chat_body nine_messages), [])"
    by (rule joke_body_unchanged)
qed

lemma dict_get_dict_set_same: "dict_get (dict_set k v d) k = Some v"
  by (induction d) (auto simp: dict_get_def)

lemma dict_get_dict_set_other: "k' \<noteq> k \<Longrightarrow> dict_get (dict_set k v d) k' = dict_get d k'"
  by (induction d) (auto simp: dict_get_def)

lemma inject_context_result:
  "inject_context rt body messages maps_result query = Inr body' \<Longrightarrow>
     \<exists>ms maps_context. messages = PList ms
       \<and> create_maps_context rt maps_result query = Inr maps_context
       \<and> body' = dict_set (cps ''messages'') (PList (system_message maps_context # ms)) body"
  by (auto simp: inject_context_def split: sum.splits pyval.splits)

lemma get_messages_nonempty:
  "get_messages body = PList ms \<Longrightarrow> ms \<noteq> [] \<Longrightarrow> dict_get body (cps ''messages'') = Some (PList ms)"
  by (auto simp: get_messages_def split: option.splits)

lemma inlet_guard_of_result:
  "inlet rt valves post body user = (Inr body', requests)
     \<Longrightarrow> check_turn_limit valves body user = Inr ()"
  by (cases "check_turn_limit valves body user") (auto simp: inlet_def)

lemma inlet_result_cases:
  assumes "inlet rt valves post body user = (Inr body', requests)"
  shows "body' = body
       \<or> (\<exists>maps_result query. truthy (get_messages body)
            \<and> inject_context rt body (get_messages body) maps_result query = Inr body')"
  using assms
  unfolding inlet_guard_passed [OF inlet_guard_of_result [OF assms]]
  by (auto split: sum.splits if_splits pyval.splits)

text \<open>
  Claim C7. A body the hook returns is the body it was given, or that body with its
  \<open>messages\<close> replaced by the same list with one message put in front, whose role is
  \<open>system\<close>: the original messages follow it, unchanged and in their order.
\<close>

theorem inlet_only_prepends:
  assumes "inlet rt valves post body user = (Inr body', requests)"
  shows "body' = body
       \<or> (\<exists>ms maps_context.
             dict_get body (cps ''messages'') = Some (PList ms)
           \<and> body' = dict_set (cps ''messages'') (PList (system_message maps_context # ms)) body
           \<and> dict_get body' (cps ''messages'') = Some (PList (system_message maps_context # ms))
           \<and> py_get (system_message maps_context) (cps ''role'') PNone
               = Inr (PStr (cps ''system'')))"
proof (cases "body' = body")
  case True
  then show ?thesis by simp
next
  case False
  with inlet_result_cases [OF assms] obtain maps_result query where
      t: "truthy (get_messages body)"
      and i: "inject_context rt body (get_messages body) maps_result query = Inr body'"
    by blast
  from inject_context_result [OF i] obtain ms maps_context where
      ms: "get_messages body = PList ms"
      and b: "body' = dict_set (cps ''messages'') (PList (system_message maps_context # ms)) body"
    by blast
  from t ms have "ms \<noteq> []" by simp
  with ms have "dict_get body (cps ''messages'') = Some (PList ms)"
    by (rule get_messages_nonempty)
  moreover have "dict_get body' (cps ''messages'') = Some (PList (system_message maps_context # ms))"
    unfolding b by (rule dict_get_dict_set_same)
  moreover have "py_get (system_message maps_context) (cps ''role'') PNone
               = Inr (PStr (cps ''system''))"
    by (simp add: system_message_def dict_get_def)
  ultimately show ?thesis using b by blast
qed

lemma pizza_is_location: "is_location_query example_runtime (cps ''find pizza'')"
  by (simp add: is_location_query_def py_lower_def example_runtime_def cps_def ascii_lower_def
      location_keywords_def starts_with_def)

lemma pizza_body_latest:
  "get_messages (chat_body [user_message q]) = PList [user_message q]"
  by (rule get_messages_chat_body)

lemma user_message_role: "py_get (user_message q) (cps ''role'') dflt = Inr (PStr (cps ''user''))"
  by (simp add: user_message_def dict_get_def)

lemma user_message_content: "py_get (user_message q) (cps ''content'') dflt = Inr (PStr q)"
  by (simp add: user_message_def dict_get_def)

lemma init_valves_enabled: "enable_maps_integration (init_valves env)"
  by (simp add: init_valves_def)

lemma no_user_not_disabled: "\<not> maps_disabled_for_user None"
  by (simp add: maps_disabled_for_user_def valves_of_user_def)

lemma inlet_single_user_message:
  assumes "enable_maps_integration valves" and "is_location_query rt q"
  shows "inlet rt valves post (chat_body [user_message q]) None =
     (case call_maps_backend rt valves post q of
        Inl e \<Rightarrow> (Inl e, [maps_request valves q])
      | Inr maps_result \<Rightarrow>
          if truthy maps_result then
            (inject_context rt (chat_body [user_message q]) (PList [user_message q]) maps_result q,
             [maps_request valves q])
          else (Inr (chat_body [user_message q]), [maps_request valves q]))"
  using assms
  by (simp add: inlet_guard_passed check_turn_limit_no_user no_user_not_disabled
      get_messages_chat_body user_message_role user_message_content split: sum.split)

lemma chat_body_set_messages:
  "dict_set (cps ''messages'') (PList ms') (chat_body ms) = chat_body ms'"
  by (simp add: chat_body_def)

lemma call_failure_reply:
  "call_maps_backend rt valves (backend_replying (Reply 200 (Some (PDict [(cps ''success'', PBool False)])))) q
     = Inr (PDict [(cps ''success'', PBool False)])"
  by (simp add: call_maps_backend_def try_call_maps_backend_def backend_replying_def
      extract_places_def get_or_none_def dict_get_def)

lemma context_of_failure_reply:
  "create_maps_context rt (PDict [(cps ''success'', PBool False)]) q
     = Inr (maps_context_text q (cps ''No places found'') [] [])"
  by (simp add: create_maps_context_def dict_get_def)

text \<open>
  Claim C2, as the specification has it, returns the body unchanged for a reply with a false
  \<open>success\<close>. The backend client hands such a reply on as it is; it is a non-empty dict,
  so the hook puts a system message in front, with \<open>No places found\<close> for the places.
\<close>

theorem failure_reply_is_injected:
  "inlet example_runtime (init_valves None)
      (backend_replying (Reply 200 (Some (PDict [(cps ''success'', PBool False)]))))
      (chat_body [user_message (cps ''find pizza'')]) None
     = (Inr (chat_body
              [system_message
                 (maps_context_text (cps ''find pizza'') (cps ''No places found'') [] []),
               user_message (cps ''find pizza'')]),
        [maps_request (init_valves None) (cps ''find pizza'')])
   \<and> chat_body
        [system_message (maps_context_text (cps ''find pizza'') (cps ''No places found'') [] []),
         user_message (cps ''find pizza'')]
      \<noteq> chat_body [user_message (cps ''find pizza'')]"
  by (simp add: inlet_single_user_message [OF init_valves_enabled pizza_is_location] call_failure_reply
      inject_context_def context_of_failure_reply chat_body_set_messages)
     (simp add: chat_body_def)

lemma call_maps_backend_falsy_cases:
  assumes "post (maps_request valves q) = NoReply
         \<or> (\<exists>status parsed. post (maps_request valves q) = Reply status parsed \<and> status \<noteq> 200)
         \<or> post (maps_request valves q) = Reply 200 None
         \<or> (\<exists>e. try_call_maps_backend rt valves post q = Inl e)
         \<or> (\<exists>r. call_maps_backend rt valves post q = Inr r \<and> \<not> truthy r)"
  shows "\<exists>r. call_maps_backend rt valves post q = Inr r \<and> \<not> truthy r"
proof -
  have "call_maps_backend rt valves post q = Inr PNone \<Longrightarrow> ?thesis" by simp
  with assms show ?thesis
    using call_maps_backend_no_reply [of post valves q rt]
      call_maps_backend_bad_status [of post valves q _ _ rt]
      call_maps_backend_no_json [of post valves q rt]
      call_maps_backend_caught [of rt valves post q]
    by blast
qed

lemma call_unsuccessful_reply:
  assumes "post (maps_request valves q) = Reply 200 (Some (PDict r))"
    and "\<not> truthy (get_or_none r (cps ''success''))"
  shows "call_maps_backend rt valves post q = Inr (PDict r)"
  using assms
  by (simp add: call_maps_backend_def try_call_maps_backend_def extract_places_def)

lemma create_maps_context_no_places:
  assumes "\<not> truthy (case dict_get r (cps ''formatted_places'') of
                        None \<Rightarrow> PList [] | Some v \<Rightarrow> v)"
  shows "create_maps_context rt (PDict r) q =
           Inr (maps_context_text q (cps ''No places found'')
                  (py_str rt (case dict_get r (cps ''map_url'') of
                                None \<Rightarrow> PStr [] | Some v \<Rightarrow> v))
                  (py_str rt (case dict_get r (cps ''directions_url'') of
                                None \<Rightarrow> PStr [] | Some v \<Rightarrow> v)))"
  using assms by (simp add: create_maps_context_def)

lemma inject_context_changes:
  assumes "dict_get body (cps ''messages'') = Some (PList ms)"
  shows "inject_context rt body (PList ms) maps_result q \<noteq> Inr body"
proof
  assume "inject_context rt body (PList ms) maps_result q = Inr body"
  from inject_context_result [OF this] obtain maps_context where
    "body = dict_set (cps ''messages'') (PList (system_message maps_context # ms)) body"
    by auto
  then have "dict_get body (cps ''messages'') = Some (PList (system_message maps_context # ms))"
    using dict_get_dict_set_same by metis
  with assms show False by simp
qed

text \<open>
  Claim C2, as the code has it. When the turn limit lets the request pass, the hook returns
  the body as it is, and sends nothing, if the global flag is off, if the user's flag is set
  and off, if there are no messages, if the latest message's role is not \<open>user\<close>, or if
  the classifier is false for its text. It returns the body as it is as well if the backend
  client has nothing true to give: no reply, a status other than 200, a text that is not
  JSON, an exception in its \<open>try\<close> block, or an empty result. A 200 reply that is a
  non-empty object without a true \<open>success\<close> is no such case: for a location query with
  the flags on, the hook does not return the body as it is; when that reply has no true
  \<open>formatted_places\<close>, the hook returns the body with a system message in front whose
  places text is \<open>No places found\<close>.
\<close>

theorem inlet_returns_body_unchanged:
  assumes "check_turn_limit valves body user = Inr ()"
  shows "(\<not> enable_maps_integration valves
            \<longrightarrow> inlet rt valves post body user = (Inr body, []))
   \<and> (maps_disabled_for_user user
            \<longrightarrow> inlet rt valves post body user = (Inr body, []))
   \<and> (get_messages body = PList []
            \<longrightarrow> inlet rt valves post body user = (Inr body, []))
   \<and> (\<forall>ms m. get_messages body = PList ms \<and> ms \<noteq> [] \<and> last ms = PDict m
              \<and> get_or_none m (cps ''role'') \<noteq> PStr (cps ''user'')
            \<longrightarrow> inlet rt valves post body user = (Inr body, []))
   \<and> (\<forall>ms m q. get_messages body = PList ms \<and> ms \<noteq> [] \<and> last ms = PDict m
              \<and> get_or_none m (cps ''role'') = PStr (cps ''user'')
              \<and> py_get (PDict m) (cps ''content'') (PStr []) = Inr (PStr q)
              \<and> \<not> is_location_query rt q
            \<longrightarrow> inlet rt valves post body user = (Inr body, []))
   \<and> (\<forall>ms m q. get_messages body = PList ms \<and> ms \<noteq> [] \<and> last ms = PDict m
              \<and> get_or_none m (cps ''role'') = PStr (cps ''user'')
              \<and> py_get (PDict m) (cps ''content'') (PStr []) = Inr (PStr q)
              \<and> is_location_query rt q
              \<and> (post (maps_request valves q) = NoReply
                 \<or> (\<exists>status parsed. post (maps_request valves q) = Reply status parsed
                                     \<and> status \<noteq> 200)
                 \<or> post (maps_request valves q) = Reply 200 None
                 \<or> (\<exists>e. try_call_maps_backend rt valves post q = Inl e)
                 \<or> (\<exists>r. call_maps_backend rt valves post q = Inr r \<and> \<not> truthy r))
            \<longrightarrow> fst (inlet rt valves post body user) = Inr body)
   \<and> (\<forall>ms m q r. get_messages body = PList ms \<and> ms \<noteq> [] \<and> last ms = PDict m
              \<and> get_or_none m (cps ''role'') = PStr (cps ''user'')
              \<and> py_get (PDict m) (cps ''content'') (PStr []) = Inr (PStr q)
              \<and> is_location_query rt q
              \<and> enable_maps_integration valves \<and> \<not> maps_disabled_for_user user
              \<and> post (maps_request valves q) = Reply 200 (Some (PDict r))
              \<and> r \<noteq> [] \<and> \<not> truthy (get_or_none r (cps ''success''))
            \<longrightarrow> fst (inlet rt valves post body user) \<noteq> Inr body
              \<and> (\<not> truthy (case dict_get r (cps ''formatted_places'') of
                              None \<Rightarrow> PList [] | Some v \<Rightarrow> v)
                 \<longrightarrow> fst (inlet rt valves post body user) =
                       Inr (dict_set (cps ''messages'')
                             (PList (system_message
                                (maps_context_text q (cps ''No places found'')
                                   (py_str rt (case dict_get r (cps ''map_url'') of
                                                 None \<Rightarrow> PStr [] | Some v \<Rightarrow> v))
                                   (py_str rt (case dict_get r (cps ''directions_url'') of
                                                 None \<Rightarrow> PStr [] | Some v \<Rightarrow> v)))
                               # ms))
                             body)))"
proof (intro conjI allI impI)
  assume "\<not> enable_maps_integration valves"
  then show "inlet rt valves post body user = (Inr body, [])"
    by (simp add: inlet_guard_passed [OF assms])
next
  assume "maps_disabled_for_user user"
  then show "inlet rt valves post body user = (Inr body, [])"
    by (simp add: inlet_guard_passed [OF assms])
next
  assume "get_messages body = PList []"
  then show "inlet rt valves post body user = (Inr body, [])"
    by (simp add: inlet_guard_passed [OF assms])
next
  fix ms m
  assume "get_messages body = PList ms \<and> ms \<noteq> [] \<and> last ms = PDict m
              \<and> get_or_none m (cps ''role'') \<noteq> PStr (cps ''user'')"
  then show "inlet rt valves post body user = (Inr body, [])"
    by (simp add: inlet_guard_passed [OF assms] get_or_none_def)
next
  fix ms m q
  assume "get_messages body = PList ms \<and> ms \<noteq> [] \<and> last ms = PDict m
              \<and> get_or_none m (cps ''role'') = PStr (cps ''user'')
              \<and> py_get (PDict m) (cps ''content'') (PStr []) = Inr (PStr q)
              \<and> \<not> is_location_query rt q"
  then show "inlet rt valves post body user = (Inr body, [])"
    by (simp add: inlet_guard_passed [OF assms] get_or_none_def)
next
  fix ms m q
  assume a: "get_messages body = PList ms \<and> ms \<noteq> [] \<and> last ms = PDict m
              \<and> get_or_none m (cps ''role'') = PStr (cps ''user'')
              \<and> py_get (PDict m) (cps ''content'') (PStr []) = Inr (PStr q)
              \<and> is_location_query rt q
              \<and> (post (maps_request valves q) = NoReply
                 \<or> (\<exists>status parsed. post (maps_request valves q) = Reply status parsed
                                     \<and> status \<noteq> 200)
                 \<or> post (maps_request valves q) = Reply 200 None
                 \<or> (\<exists>e. try_call_maps_backend rt valves post q = Inl e)
                 \<or> (\<exists>r. call_maps_backend rt valves post q = Inr r \<and> \<not> truthy r))"
  then obtain r where r: "call_maps_backend rt valves post q = Inr r" "\<not> truthy r"
    using call_maps_backend_falsy_cases [of post valves q rt] by blast
  with a show "fst (inlet rt valves post body user) = Inr body"
    by (simp add: inlet_guard_passed [OF assms] get_or_none_def)
next
  fix ms m q r
  assume a: "get_messages body = PList ms \<and> ms \<noteq> [] \<and> last ms = PDict m
              \<and> get_or_none m (cps ''role'') = PStr (cps ''user'')
              \<and> py_get (PDict m) (cps ''content'') (PStr []) = Inr (PStr q)
              \<and> is_location_query rt q
              \<and> enable_maps_integration valves \<and> \<not> maps_disabled_for_user user
              \<and> post (maps_request valves q) = Reply 200 (Some (PDict r))
              \<and> r \<noteq> [] \<and> \<not> truthy (get_or_none r (cps ''success''))"
  then have call: "call_maps_backend rt valves post q = Inr (PDict r)"
    by (intro call_unsuccessful_reply) simp_all
  from a have inl: "fst (inlet rt valves post body user) =
                      inject_context rt body (PList ms) (PDict r) q"
    by (simp add: inlet_guard_passed [OF assms] get_or_none_def call)
  from a have "dict_get body (cps ''messages'') = Some (PList ms)"
    by (intro get_messages_nonempty) simp_all
  then show "fst (inlet rt valves post body user) \<noteq> Inr body"
    unfolding inl by (rule inject_context_changes)
  assume "\<not> truthy (case dict_get r (cps ''formatted_places'') of
                              None \<Rightarrow> PList [] | Some v \<Rightarrow> v)"
  then show "fst (inlet rt valves post body user) =
                       Inr (dict_set (cps ''messages'')
                             (PList (system_message
                                (maps_context_text q (cps ''No places found'')
                                   (py_str rt (case dict_get r (cps ''map_url'') of
                                                 None \<Rightarrow> PStr [] | Some v \<Rightarrow> v))
                                   (py_str rt (case dict_get r (cps ''directions_url'') of
                                                 None \<Rightarrow> PStr [] | Some v \<Rightarrow> v)))
                               # ms))
                             body)"
    unfolding inl by (simp add: inject_context_def create_maps_context_no_places)
qed

lemma assistant_message_role:
  "get_or_none [(cps ''role'', PStr (cps ''assistant'')), (cps ''content'', PStr c)] (cps ''role'')
     \<noteq> PStr (cps ''user'')"
  by (simp add: get_or_none_def dict_get_def)

lemma check_short_chat:
  "check_turn_limit (init_valves None) (chat_body [user_message q])
     (Some [(cps ''role'', PStr (cps ''user'')), (cps ''valves'', PObj None (Some False))]) = Inr ()"
  by (simp add: check_turn_limit_def get_messages_chat_body effective_max_turns_def
      user_max_turns_def valves_of_user_def get_or_none_def dict_get_def init_valves_def)

lemma user_switched_off:
  "maps_disabled_for_user
     (Some [(cps ''role'', PStr (cps ''user'')), (cps ''valves'', PObj None (Some False))])"
  by (simp add: maps_disabled_for_user_def valves_of_user_def get_or_none_def dict_get_def)

theorem inlet_returns_body_unchanged_witness:
  "inlet example_runtime ((init_valves None)\<lparr>enable_maps_integration := False\<rparr>)
       (backend_replying NoReply) (chat_body [user_message (cps ''find pizza'')]) None
     = (Inr (chat_body [user_message (cps ''find pizza'')]), [])
   \<and> inlet example_runtime (init_valves None) (backend_replying NoReply)
       (chat_body [user_message (cps ''find pizza'')])
       (Some [(cps ''role'', PStr (cps ''user'')), (cps ''valves'', PObj None (Some False))])
     = (Inr (chat_body [user_message (cps ''find pizza'')]), [])
   \<and> inlet example_runtime (init_valves None) (backend_replying NoReply) (chat_body []) None
     = (Inr (chat_body []), [])
   \<and> inlet example_runtime (init_valves None) (backend_replying NoReply)
       (chat_body [user_message (cps ''find pizza''), assistant_message (cps ''Which city?'')]) None
     = (Inr (chat_body [user_message (cps ''find pizza''),
                        assistant_message (cps ''Which city?'')]), [])
   \<and> inlet example_runtime (init_valves None) (backend_replying NoReply)
       (chat_body [user_message (cps ''Tell me a joke'')]) None
     = (Inr (chat_body [user_message (cps ''Tell me a joke'')]), [])
   \<and> fst (inlet example_runtime (init_valves None) (backend_replying NoReply)
       (chat_body [user_message (cps ''find pizza'')]) None)
     = Inr (chat_body [user_message (cps ''find pizza'')])
   \<and> fst (inlet example_runtime (init_valves None) (backend_replying (Reply 503 None))
       (chat_body [user_message (cps ''find pizza'')]) None)
     = Inr (chat_body [user_message (cps ''find pizza'')])
   \<and> fst (inlet example_runtime (init_valves None)
        (backend_replying (Reply 200 (Some (PDict [(cps ''success'', PBool False)]))))
        (chat_body [user_message (cps ''find pizza'')]) None)
     = Inr (chat_body
         [system_message
            (maps_context_text (cps ''find pizza'') (cps ''No places found'') [] []),
          user_message (cps ''find pizza'')])
   \<and> fst (inlet example_runtime (init_valves None)
        (backend_replying (Reply 200 (Some (PDict
           [(cps ''success'', PBool False), (cps ''formatted_places'', PInt 7)]))))
        (chat_body [user_message (cps ''find pizza'')]) None)
     \<noteq> Inr (chat_body [user_message (cps ''find pizza'')])"
proof (intro conjI)
  show "inlet example_runtime ((init_valves None)\<lparr>enable_maps_integration := False\<rparr>)
       (backend_replying NoReply) (chat_body [user_message (cps ''find pizza'')]) None
     = (Inr (chat_body [user_message (cps ''find pizza'')]), [])"
    by (rule inlet_returns_body_unchanged [OF check_turn_limit_no_user,
          THEN conjunct1, THEN mp])
       (simp add: init_valves_def)
  show "inlet example_runtime (init_valves None) (backend_replying NoReply)
       (chat_body [user_message (cps ''find pizza'')])
       (Some [(cps ''role'', PStr (cps ''user'')), (cps ''valves'', PObj None (Some False))])
     = (Inr (chat_body [user_message (cps ''find pizza'')]), [])"
    by (rule inlet_returns_body_unchanged [OF check_short_chat,
          THEN conjunct2, THEN conjunct1, THEN mp])
       (rule user_switched_off)
  show "inlet example_runtime (init_valves None) (backend_replying NoReply) (chat_body []) None
     = (Inr (chat_body []), [])"
    by (rule inlet_returns_body_unchanged [OF check_turn_limit_no_user,
          THEN conjunct2, THEN conjunct2, THEN conjunct1, THEN mp])
       (rule get_messages_chat_body)
  show "inlet example_runtime (init_valves None) (backend_replying NoReply)
       (chat_body [user_message (cps ''find pizza''), assistant_message (cps ''Which city?'')]) None
     = (Inr (chat_body [user_message (cps ''find pizza''),
                        assistant_message (cps ''Which city?'')]), [])"
    using inlet_returns_body_unchanged [where body = "chat_body [user_message (cps ''find pizza''), assistant_message (cps ''Which city?'')]"
          and rt = example_runtime and valves = "init_valves None" and user = None
          and post = "backend_replying NoReply",
          OF check_turn_limit_no_user,
          THEN conjunct2, THEN conjunct2, THEN conjunct2, THEN conjunct1]
    by (simp add: get_messages_chat_body assistant_message_def assistant_message_role)
  show "inlet example_runtime (init_valves None) (backend_replying NoReply)
       (chat_body [user_message (cps ''Tell me a joke'')]) None
     = (Inr (chat_body [user_message (cps ''Tell me a joke'')]), [])"
    using inlet_returns_body_unchanged [where body = "chat_body [user_message (cps ''Tell me a joke'')]"
          and rt = example_runtime and valves = "init_valves None" and user = None
          and post = "backend_replying NoReply",
          OF check_turn_limit_no_user,
          THEN conjunct2, THEN conjunct2, THEN conjunct2, THEN conjunct2, THEN conjunct1]
    by (simp add: get_messages_chat_body user_message_def get_or_none_def dict_get_def
        joke_is_no_location)
  show "fst (inlet example_runtime (init_valves None) (backend_replying NoReply)
       (chat_body [user_message (cps ''find pizza'')]) None)
     = Inr (chat_body [user_message (cps ''find pizza'')])"
    using inlet_returns_body_unchanged [where body = "chat_body [user_message (cps ''find pizza'')]"
          and rt = example_runtime and valves = "init_valves None" and user = None
          and post = "backend_replying NoReply",
          OF check_turn_limit_no_user,
          THEN conjunct2, THEN conjunct2, THEN conjunct2, THEN conjunct2, THEN conjunct2,
          THEN conjunct1]
    by (simp add: get_messages_chat_body user_message_def get_or_none_def dict_get_def
        pizza_is_location backend_replying_def)
  show "fst (inlet example_runtime (init_valves None) (backend_replying (Reply 503 None))
       (chat_body [user_message (cps ''find pizza'')]) None)
     = Inr (chat_body [user_message (cps ''find pizza'')])"
    using inlet_returns_body_unchanged [where body = "chat_body [user_message (cps ''find pizza'')]"
          and rt = example_runtime and valves = "init_valves None" and user = None
          and post = "backend_replying (Reply 503 None)",
          OF check_turn_limit_no_user,
          THEN conjunct2, THEN conjunct2, THEN conjunct2, THEN conjunct2, THEN conjunct2,
          THEN conjunct1]
    by (simp add: get_messages_chat_body user_message_def get_or_none_def dict_get_def
        pizza_is_location backend_replying_def)
  show "fst (inlet example_runtime (init_valves None)
        (backend_replying (Reply 200 (Some (PDict [(cps ''success'', PBool False)]))))
        (chat_body [user_message (cps ''find pizza'')]) None)
     = Inr (chat_body
         [system_message
            (maps_context_text (cps ''find pizza'') (cps ''No places found'') [] []),
          user_message (cps ''find pizza'')])"
    using inlet_returns_body_unchanged [where body = "chat_body [user_message (cps ''find pizza'')]"
          and rt = example_runtime and valves = "init_valves None" and user = None
          and post = "backend_replying (Reply 200 (Some (PDict [(cps ''success'', PBool False)])))",
          OF check_turn_limit_no_user,
          THEN conjunct2, THEN conjunct2, THEN conjunct2, THEN conjunct2, THEN conjunct2,
          THEN conjunct2]
    by (simp add: get_messages_chat_body user_message_def get_or_none_def dict_get_def
        pizza_is_location backend_replying_def init_valves_enabled no_user_not_disabled
        chat_body_set_messages)
  show "fst (inlet example_runtime (init_valves None)
        (backend_replying (Reply 200 (Some (PDict
           [(cps ''success'', PBool False), (cps ''formatted_places'', PInt 7)]))))
        (chat_body [user_message (cps ''find pizza'')]) None)
     \<noteq> Inr (chat_body [user_message (cps ''find pizza'')])"
    using inlet_returns_body_unchanged [where body = "chat_body [user_message (cps ''find pizza'')]"
          and rt = example_runtime and valves = "init_valves None" and user = None
          and post = "backend_replying (Reply 200 (Some (PDict
             [(cps ''success'', PBool False), (cps ''formatted_places'', PInt 7)])))",
          OF check_turn_limit_no_user,
          THEN conjunct2, THEN conjunct2, THEN conjunct2, THEN conjunct2, THEN conjunct2,
          THEN conjunct2]
    by (simp add: get_messages_chat_body user_message_def get_or_none_def dict_get_def
        pizza_is_location backend_replying_def init_valves_enabled no_user_not_disabled)
qed

lemma call_one_cafe:
  "call_maps_backend rt valves
     (backend_replying (Reply 200 (Some (PDict (places_reply [plain_place name addr]))))) q
   = Inr (PDict [(cps ''formatted_places'',
                    PList [PStr (pin_emoji @ cps '' **'' @ name @ cps ''**''
                                 @ nl3 @ pin_emoji @ cps '' '' @ addr)]),
                 (cps ''map_url'', PStr (cps ''https://maps.example/view'')),
                 (cps ''directions_url'', PStr (cps ''https://maps.example/dir'')),
                 (cps ''center'', PNone),
                 (cps ''zoom'', PNone),
                 (cps ''raw_data'', PDict (places_reply [plain_place name addr]))])"
  by (simp add: call_maps_backend_def try_call_maps_backend_def backend_replying_def
      extract_places_def places_reply_def get_or_none_def dict_get_def format_plain_place)

lemma context_of_one_cafe:
  "create_maps_context rt
     (PDict [(cps ''formatted_places'', PList [PStr block]),
             (cps ''map_url'', PStr (cps ''https://maps.example/view'')),
             (cps ''directions_url'', PStr (cps ''https://maps.example/dir'')),
             (cps ''center'', PNone),
             (cps ''zoom'', PNone),
             (cps ''raw_data'', raw)]) q
   = Inr (maps_context_text q block (cps ''https://maps.example/view'')
            (cps ''https://maps.example/dir''))"
  by (simp add: create_maps_context_def dict_get_def)

lemma inlet_one_cafe:
  "inlet example_runtime (init_valves None)
     (backend_replying (Reply 200 (Some (PDict (places_reply
        [plain_place (cps ''Cafe 2'') (cps ''2 Main St'')])))))
     (chat_body [user_message (cps ''find pizza'')]) None
   = (Inr (chat_body
        [system_message
           (maps_context_text (cps ''find pizza'')
              (pin_emoji @ cps '' **'' @ cps ''Cafe 2'' @ cps ''**''
                 @ nl3 @ pin_emoji @ cps '' '' @ cps ''2 Main St'')
              (cps ''https://maps.example/view'') (cps ''https://maps.example/dir'')),
         user_message (cps ''find pizza'')]),
      [maps_request (init_valves None) (cps ''find pizza'')])"
  by (simp add: inlet_single_user_message [OF init_valves_enabled pizza_is_location]
      call_one_cafe inject_context_def context_of_one_cafe chat_body_set_messages)

theorem inlet_only_prepends_witness:
  "inlet example_runtime (init_valves None)
     (backend_replying (Reply 200 (Some (PDict (places_reply
        [plain_place (cps ''Cafe 2'') (cps ''2 Main St'')])))))
     (chat_body [user_message (cps ''find pizza'')]) None
   = (Inr (chat_body
        [system_message
           (maps_context_text (cps ''find pizza'')
              (pin_emoji @ cps '' **'' @ cps ''Cafe 2'' @ cps ''**''
                 @ nl3 @ pin_emoji @ cps '' '' @ cps ''2 Main St'')
              (cps ''https://maps.example/view'') (cps ''https://maps.example/dir'')),
         user_message (cps ''find pizza'')]),
      [maps_request (init_valves None) (cps ''find pizza'')])
   \<and> (\<exists>ms maps_context.
         dict_get (chat_body [user_message (cps ''find pizza'')]) (cps ''messages'')
           = Some (PList ms)
       \<and> chat_body
            [system_message
               (maps_context_text (cps ''find pizza'')
                  (pin_emoji @ cps '' **'' @ cps ''Cafe 2'' @ cps ''**''
                     @ nl3 @ pin_emoji @ cps '' '' @ cps ''2 Main St'')
                  (cps ''https://maps.example/view'') (cps ''https://maps.example/dir'')),
             user_message (cps ''find pizza'')]
           = dict_set (cps ''messages'') (PList (system_message maps_context # ms))
               (chat_body [user_message (cps ''find pizza'')]))"
proof -
  have differ: "chat_body
            [system_message
               (maps_context_text (cps ''find pizza'')
                  (pin_emoji @ cps '' **'' @ cps ''Cafe 2'' @ cps ''**''
                     @ nl3 @ pin_emoji @ cps '' '' @ cps ''2 Main St'')
                  (cps ''https://maps.example/view'') (cps ''https://maps.example/dir'')),
             user_message (cps ''find pizza'')]
          \<noteq> chat_body [user_message (cps ''find pizza'')]"
    by (simp add: chat_body_def)
  from inlet_only_prepends [OF inlet_one_cafe] differ inlet_one_cafe
  show ?thesis by blast
qed

theorem no_user_no_turn_limit_witness:
  "check_turn_limit (init_valves None) (chat_body (nine_messages @ nine_messages)) None = Inr ()
   \<and> py_len (get_messages (chat_body (nine_messages @ nine_messages))) = Inr 18
   \<and> fst (inlet example_runtime (init_valves None) (backend_replying NoReply)
            (chat_body (nine_messages @ nine_messages)) None)
       \<noteq> Inl (Exception (turn_limit_message 4))"
  using no_user_no_turn_limit [of "init_valves None" "chat_body (nine_messages @ nine_messages)"
      example_runtime "backend_replying NoReply"]
  by (simp add: get_messages_chat_body nine_messages_length)

end
